theory Spec2Isabelle
  imports Main "HOL-Library.Sublist"
begin

section \<open>Python values\<close>

text \<open>
  The module \<^verbatim>\<open>gcp_pilot/datastore.py\<close> works on dynamically typed Python objects.
  One datatype holds the kinds of object the module handles: \<^verbatim>\<open>None\<close>, booleans,
  integers, strings, datetimes, enum members (class name, member name), dataclass
  instances of a document class (class name, instance attributes in declaration order),
  lists and dicts (association lists in insertion order).

  A Python \<^verbatim>\<open>str\<close> is a sequence of code points; here it is the \<open>string\<close> of its
  UTF-8 bytes. Concatenation, splitting at an ASCII separator and joining are the same on
  both; iteration over a str goes through \<open>py_chars\<close>, which groups the bytes of each
  code point.
\<close>

record datetime =
  year :: nat
  month :: nat
  day :: nat
  hour :: nat
  minute :: nat
  second :: nat
  microsecond :: nat

datatype pyval =
    PNone
  | PBool bool
  | PInt int
  | PStr string
  | PDatetime datetime
  | PEnum string string
  | PDoc string "(string \<times> pyval) list"
  | PList "pyval list"
  | PDict "(pyval \<times> pyval) list"

text \<open>
  Exceptions are values. \<open>UnsupportedFormatException\<close> and \<open>ValidationError\<close> are the
  classes of \<^verbatim>\<open>gcp_pilot.exceptions\<close> the module raises; the first carries the offending
  suffixes its message prints, the second its message. \<open>DoesNotExist\<close> and
  \<open>MultipleObjectsFound\<close> are the module's own dataclasses \<^verbatim>\<open>(cls, filters)\<close>. The others
  are the interpreter's errors on ill-typed data, and \<open>StoreError\<close> an error response
  of the store. \<open>NotModelled\<close> marks a library
  conversion this development does not describe (the \<^verbatim>\<open>repr\<close> of a compound value,
  parsing a time zone).
\<close>

datatype error =
    UnsupportedFormatException "string list"
  | ValidationError string
  | DoesNotExist string pyval
  | MultipleObjectsFound string pyval
  | TypeError
  | ValueError
  | AttributeError
  | KeyError
  | StoreError
  | NotModelled

subsection \<open>Strings\<close>

text \<open>\<^verbatim>\<open>sep.join(xs)\<close>.\<close>

fun join :: "string \<Rightarrow> string list \<Rightarrow> string" where
  "join sep [] = []"
| "join sep [x] = x"
| "join sep (x # y # ys) = x @ sep @ join sep (y # ys)"

text \<open>
  \<^verbatim>\<open>s.split(sep)\<close> for a non-empty separator: the occurrences of \<open>sep\<close> are found from
  the left and do not overlap; \<open>cur\<close> is the piece read so far. (Python raises
  \<^verbatim>\<open>ValueError\<close> on an empty separator; the module only splits at \<^verbatim>\<open>"__"\<close> and
  \<^verbatim>\<open>"."\<close>.)
\<close>

function split_from :: "string \<Rightarrow> string \<Rightarrow> string \<Rightarrow> string list" where
  "split_from sep cur s =
     (if s = [] then [cur]
      else if sep \<noteq> [] \<and> prefix sep s then cur # split_from sep [] (drop (length sep) s)
      else split_from sep (cur @ [hd s]) (tl s))"
  by pat_completeness auto
termination
  by (relation "measure (\<lambda>(sep, cur, s). length s)") auto

definition py_split :: "string \<Rightarrow> string \<Rightarrow> string list" where
  "py_split sep s = split_from sep [] s"

text \<open>The code points of a str, each as a one-character str (UTF-8: a lead byte and
  its continuation bytes \<^verbatim>\<open>10xxxxxx\<close>).\<close>

definition is_continuation :: "char \<Rightarrow> bool" where
  "is_continuation c = (128 \<le> (of_char c :: nat) \<and> (of_char c :: nat) < 192)"

function py_chars :: "string \<Rightarrow> string list" where
  "py_chars [] = []"
| "py_chars (c # cs) =
     (c # takeWhile is_continuation cs) # py_chars (dropWhile is_continuation cs)"
  by pat_completeness auto
termination
  by (relation "measure length") (auto simp: length_dropWhile_le less_Suc_eq_le)

text \<open>The code point U+FFFD, in UTF-8.\<close>

definition u_fffd :: string where
  "u_fffd = [char_of (239 :: nat), char_of (191 :: nat), char_of (189 :: nat)]"

section \<open>Python built-ins the module relies on\<close>

text \<open>Truth value testing: \<^verbatim>\<open>if pk:\<close>, \<^verbatim>\<open>if not obj.pk:\<close>, \<^verbatim>\<open>bool(value)\<close>.\<close>

fun py_truthy :: "pyval \<Rightarrow> bool" where
  "py_truthy PNone = False"
| "py_truthy (PBool b) = b"
| "py_truthy (PInt i) = (i \<noteq> 0)"
| "py_truthy (PStr s) = (s \<noteq> [])"
| "py_truthy (PDatetime d) = True"
| "py_truthy (PEnum c m) = True"
| "py_truthy (PDoc c attrs) = True"
| "py_truthy (PList xs) = (xs \<noteq> [])"
| "py_truthy (PDict kvs) = (kvs \<noteq> [])"

text \<open>
  Dict keys: a key must be hashable (lists, dicts and instances of an unfrozen dataclass
  are not), and two keys are the same key when they are equal, where \<^verbatim>\<open>True == 1\<close> and
  \<^verbatim>\<open>False == 0\<close>.
\<close>

fun hashable :: "pyval \<Rightarrow> bool" where
  "hashable (PDoc c attrs) = False"
| "hashable (PList xs) = False"
| "hashable (PDict kvs) = False"
| "hashable v = True"

fun key_norm :: "pyval \<Rightarrow> pyval" where
  "key_norm (PBool b) = PInt (if b then 1 else 0)"
| "key_norm v = v"

definition key_eq :: "pyval \<Rightarrow> pyval \<Rightarrow> bool" where
  "key_eq a b = (key_norm a = key_norm b)"

text \<open>\<^verbatim>\<open>d[k]\<close> (\<open>None\<close> is \<^verbatim>\<open>KeyError\<close>) and \<^verbatim>\<open>d[k] = v\<close>: an equal key keeps its place
  and its key object, a new key goes last.\<close>

fun dict_get :: "(pyval \<times> pyval) list \<Rightarrow> pyval \<Rightarrow> pyval option" where
  "dict_get [] k = None"
| "dict_get ((k', v) # kvs) k = (if key_eq k' k then Some v else dict_get kvs k)"

fun dict_set :: "(pyval \<times> pyval) list \<Rightarrow> pyval \<Rightarrow> pyval \<Rightarrow> (pyval \<times> pyval) list" where
  "dict_set [] k v = [(k, v)]"
| "dict_set ((k', v') # kvs) k v =
     (if key_eq k' k then (k', v) # kvs else (k', v') # dict_set kvs k v)"

text \<open>\<^verbatim>\<open>for x in value\<close>: a list gives its items, a dict its keys, a str its characters;
  the other kinds of value are not iterable.\<close>

fun py_iter :: "pyval \<Rightarrow> error + pyval list" where
  "py_iter (PList xs) = Inr xs"
| "py_iter (PDict kvs) = Inr (map fst kvs)"
| "py_iter (PStr s) = Inr (map PStr (py_chars s))"
| "py_iter v = Inl TypeError"

subsection \<open>Decimal digits\<close>

definition digit_char :: "nat \<Rightarrow> char" where
  "digit_char n = char_of (48 + n)"

definition digit_val :: "char \<Rightarrow> nat option" where
  "digit_val c = (if 48 \<le> (of_char c :: nat) \<and> (of_char c :: nat) \<le> 57
                  then Some (of_char c - 48) else None)"

text \<open>\<^verbatim>\<open>"%0wd" % n\<close> for \<open>n < 10 ^ w\<close>, and \<^verbatim>\<open>str(n)\<close> for a natural number.\<close>

fun pad_digits :: "nat \<Rightarrow> nat \<Rightarrow> string" where
  "pad_digits 0 n = []"
| "pad_digits (Suc w) n = pad_digits w (n div 10) @ [digit_char (n mod 10)]"

function show_nat :: "nat \<Rightarrow> string" where
  "show_nat n = (if n < 10 then [digit_char n] else show_nat (n div 10) @ [digit_char (n mod 10)])"
  by pat_completeness auto
termination
  by (relation "measure id") auto

text \<open>Reading \<open>w\<close> decimal digits from the front of a string: the number and the rest.\<close>

fun read_digits :: "nat \<Rightarrow> nat \<Rightarrow> string \<Rightarrow> (nat \<times> string) option" where
  "read_digits 0 acc s = Some (acc, s)"
| "read_digits (Suc w) acc [] = None"
| "read_digits (Suc w) acc (c # cs) =
     (case digit_val c of None \<Rightarrow> None | Some d \<Rightarrow> read_digits w (10 * acc + d) cs)"

subsection \<open>\<^verbatim>\<open>datetime\<close>\<close>

text \<open>
  The standard library's \<^verbatim>\<open>datetime\<close> is not code of this repository. It is described
  here for naive datetimes (no time zone), after the library's documentation:
  \<^verbatim>\<open>str(d)\<close> is \<^verbatim>\<open>d.isoformat(sep=' ')\<close>, that is \<^verbatim>\<open>YYYY-MM-DD HH:MM:SS\<close>, followed by
  \<^verbatim>\<open>.ffffff\<close> when the microsecond is not zero; \<^verbatim>\<open>datetime.fromisoformat\<close> reads
  \<^verbatim>\<open>YYYY-MM-DD[*HH[:MM[:SS[.fff[fff]]]]]\<close> (\<^verbatim>\<open>*\<close> is any one character) and checks the
  ranges of the fields. A string that goes on with a time zone offset is \<open>NotModelled\<close>.
\<close>

definition leap_year :: "nat \<Rightarrow> bool" where
  "leap_year y = (y mod 4 = 0 \<and> (y mod 100 \<noteq> 0 \<or> y mod 400 = 0))"

definition days_in_month :: "nat \<Rightarrow> nat \<Rightarrow> nat" where
  "days_in_month y m =
     (if m = 2 then (if leap_year y then 29 else 28)
      else if m = 4 \<or> m = 6 \<or> m = 9 \<or> m = 11 then 30 else 31)"

definition valid_datetime :: "datetime \<Rightarrow> bool" where
  "valid_datetime d =
     (1 \<le> year d \<and> year d \<le> 9999 \<and> 1 \<le> month d \<and> month d \<le> 12
      \<and> 1 \<le> day d \<and> day d \<le> days_in_month (year d) (month d)
      \<and> hour d < 24 \<and> minute d < 60 \<and> second d < 60 \<and> microsecond d < 1000000)"

definition isoformat :: "datetime \<Rightarrow> string" where
  "isoformat d =
     pad_digits 4 (year d) @ ''-'' @ pad_digits 2 (month d) @ ''-'' @ pad_digits 2 (day d)
     @ '' '' @ pad_digits 2 (hour d) @ '':'' @ pad_digits 2 (minute d) @ '':''
     @ pad_digits 2 (second d)
     @ (if microsecond d = 0 then [] else ''.'' @ pad_digits 6 (microsecond d))"

text \<open>The time part \<^verbatim>\<open>HH[:MM[:SS[.fff[fff]]]]\<close>: (hour, minute, second, microsecond).\<close>

definition parse_fraction :: "string \<Rightarrow> nat option" where
  "parse_fraction s =
     (if length s = 6 then
        (case read_digits 6 0 s of Some (us, _) \<Rightarrow> Some us | None \<Rightarrow> None)
      else if length s = 3 then
        (case read_digits 3 0 s of Some (ms, _) \<Rightarrow> Some (ms * 1000) | None \<Rightarrow> None)
      else None)"

definition parse_time :: "string \<Rightarrow> (nat \<times> nat \<times> nat \<times> nat) option" where
  "parse_time s =
     (case read_digits 2 0 s of
        None \<Rightarrow> None
      | Some (h, s1) \<Rightarrow>
         (case s1 of
            [] \<Rightarrow> Some (h, 0, 0, 0)
          | c1 # s2 \<Rightarrow>
             if c1 \<noteq> CHR '':'' then None else
             (case read_digits 2 0 s2 of
                None \<Rightarrow> None
              | Some (mi, s3) \<Rightarrow>
                 (case s3 of
                    [] \<Rightarrow> Some (h, mi, 0, 0)
                  | c2 # s4 \<Rightarrow>
                     if c2 \<noteq> CHR '':'' then None else
                     (case read_digits 2 0 s4 of
                        None \<Rightarrow> None
                      | Some (se, s5) \<Rightarrow>
                         (case s5 of
                            [] \<Rightarrow> Some (h, mi, se, 0)
                          | c3 # s6 \<Rightarrow>
                             if c3 \<noteq> CHR ''.'' then None else
                             (case parse_fraction s6 of
                                None \<Rightarrow> None
                              | Some us \<Rightarrow> Some (h, mi, se, us))))))))"

definition check_datetime :: "datetime \<Rightarrow> error + datetime" where
  "check_datetime d = (if valid_datetime d then Inr d else Inl ValueError)"

definition fromisoformat :: "string \<Rightarrow> error + datetime" where
  "fromisoformat s =
     (case read_digits 4 0 s of
        None \<Rightarrow> Inl ValueError
      | Some (y, s1) \<Rightarrow>
         (case s1 of
            [] \<Rightarrow> Inl ValueError
          | c1 # s2 \<Rightarrow>
             if c1 \<noteq> CHR ''-'' then Inl ValueError else
             (case read_digits 2 0 s2 of
                None \<Rightarrow> Inl ValueError
              | Some (mo, s3) \<Rightarrow>
                 (case s3 of
                    [] \<Rightarrow> Inl ValueError
                  | c2 # s4 \<Rightarrow>
                     if c2 \<noteq> CHR ''-'' then Inl ValueError else
                     (case read_digits 2 0 s4 of
                        None \<Rightarrow> Inl ValueError
                      | Some (d, s5) \<Rightarrow>
                         (case s5 of
                            [] \<Rightarrow> check_datetime \<lparr>year = y, month = mo, day = d, hour = 0,
                                   minute = 0, second = 0, microsecond = 0\<rparr>
                          | sep # t \<Rightarrow>
                             if CHR ''+'' \<in> set t \<or> CHR ''-'' \<in> set t then Inl NotModelled
                             else
                               (case parse_time t of
                                  None \<Rightarrow> Inl ValueError
                                | Some (h, mi, se, us) \<Rightarrow>
                                    check_datetime \<lparr>year = y, month = mo, day = d, hour = h,
                                      minute = mi, second = se, microsecond = us\<rparr>)))))))"

subsection \<open>\<^verbatim>\<open>str(value)\<close>\<close>

text \<open>
  \<^verbatim>\<open>str\<close> of a scalar; of an enum member it is \<^verbatim>\<open>Class.MEMBER\<close>. The \<^verbatim>\<open>repr\<close> of a
  dataclass instance, list or dict is not described (\<open>None\<close>).
\<close>

fun py_str :: "pyval \<Rightarrow> string option" where
  "py_str PNone = Some ''None''"
| "py_str (PBool b) = Some (if b then ''True'' else ''False'')"
| "py_str (PInt i) = Some (if i < 0 then ''-'' @ show_nat (nat (- i)) else show_nat (nat i))"
| "py_str (PStr s) = Some s"
| "py_str (PDatetime d) = Some (isoformat d)"
| "py_str (PEnum c m) = Some (c @ ''.'' @ m)"
| "py_str v = None"

section \<open>Declared field types\<close>

text \<open>
  A class used as \<^verbatim>\<open>klass\<close> in \<^verbatim>\<open>_build\<close>: \<^verbatim>\<open>typing.Any\<close>, a scalar constructor,
  \<^verbatim>\<open>datetime\<close>, an \<^verbatim>\<open>Enum\<close> subclass or an \<^verbatim>\<open>EmbeddedDocument\<close> subclass (both by
  name). A field's annotation is such a class, \<^verbatim>\<open>List[klass]\<close> or
  \<^verbatim>\<open>Dict[klass, klass]\<close>.
\<close>

datatype klass = KAny | KInt | KStr | KBool | KDatetime | KEnum string | KDoc string

datatype ftype = Plain klass | ListOf klass | DictOf klass klass

text \<open>
  The dataclass \<^verbatim>\<open>Metadata\<close> (\<^verbatim>\<open>namespace\<close>, which only selects the client's namespace,
  is left out; the attribute \<^verbatim>\<open>fields\<close> is \<open>fields'\<close> here, the record package keeps the
  name \<open>fields\<close> for itself). The classes of a program are given by name: the \<^verbatim>\<open>Meta\<close> of
  each document class, the default values of its dataclass fields (a field with no
  default is a required argument of the constructor), and the members of each enum class
  with their values.
\<close>

record metadata =
  fields' :: "(string \<times> ftype) list"
  doc_klass :: string
  pk_field :: "string option"

record class_env =
  metas :: "(string \<times> metadata) list"
  defaults :: "(string \<times> (string \<times> pyval) list) list"
  enums :: "(string \<times> (string \<times> pyval) list) list"

section \<open>TypeCodec and RecordMapper: \<^verbatim>\<open>Metadata.from_dict\<close>, \<^verbatim>\<open>Metadata.to_dict\<close>\<close>

text \<open>The first error of a list of results, or all the values.\<close>

fun sequence :: "(error + 'a) list \<Rightarrow> error + 'a list" where
  "sequence [] = Inr []"
| "sequence (Inl e # rs) = Inl e"
| "sequence (Inr x # rs) = (case sequence rs of Inl e \<Rightarrow> Inl e | Inr xs \<Rightarrow> Inr (x # xs))"

text \<open>
  A dict comprehension \<^verbatim>\<open>{key(k): val(v) for k, v in items}\<close>, given for each item the
  results of its key and of its value: the key is evaluated first, the pair is then stored
  (which raises \<^verbatim>\<open>TypeError\<close> for an unhashable key).
\<close>

fun dict_comprehension ::
  "((error + pyval) \<times> (error + pyval)) list \<Rightarrow> (pyval \<times> pyval) list \<Rightarrow> error + (pyval \<times> pyval) list" where
  "dict_comprehension [] acc = Inr acc"
| "dict_comprehension ((Inl e, r) # rs) acc = Inl e"
| "dict_comprehension ((Inr k, Inl e) # rs) acc = Inl e"
| "dict_comprehension ((Inr k, Inr v) # rs) acc =
     (if hashable k then dict_comprehension rs (dict_set acc k v) else Inl TypeError)"

text \<open>\<^verbatim>\<open>getattr(obj, field_name)\<close>.\<close>

fun getattr :: "pyval \<Rightarrow> string \<Rightarrow> error + pyval" where
  "getattr (PDoc c attrs) n = (case map_of attrs n of None \<Rightarrow> Inl AttributeError | Some v \<Rightarrow> Inr v)"
| "getattr v n = Inl AttributeError"

text \<open>
  In \<^verbatim>\<open>to_dict\<close> the test is \<^verbatim>\<open>field not in select_fields\<close>. The loop variable is
  \<^verbatim>\<open>field_name\<close>; the name \<^verbatim>\<open>field\<close> is the function \<^verbatim>\<open>dataclasses.field\<close> imported at
  the top of the module, and a function is equal to no str of the list.
\<close>

definition field_in :: "string list \<Rightarrow> bool" where
  "field_in select_fields = False"

text \<open>
  \<^verbatim>\<open>Metadata.to_dict(obj, select_fields)\<close> with its inner \<^verbatim>\<open>_unbuild\<close>. The loop over
  \<^verbatim>\<open>self.fields.items()\<close> is a map over the declared fields: a skipped field gives
  \<open>None\<close>, the others the field name with the result for its item. \<open>select_fields\<close>
  is \<^verbatim>\<open>None\<close> or a list of names; \<^verbatim>\<open>None\<close> and the empty list are false.
\<close>

fun collect :: "(string \<times> (error + pyval)) option list \<Rightarrow> error + (string \<times> pyval) list" where
  "collect [] = Inr []"
| "collect (None # rs) = collect rs"
| "collect (Some (n, Inl e) # rs) = Inl e"
| "collect (Some (n, Inr v) # rs) =
     (case collect rs of Inl e \<Rightarrow> Inl e | Inr xs \<Rightarrow> Inr ((n, v) # xs))"

definition str_keys :: "(string \<times> pyval) list \<Rightarrow> pyval" where
  "str_keys items = PDict (map (\<lambda>(n, v). (PStr n, v)) items)"

definition as_list :: "error + pyval list \<Rightarrow> error + pyval" where
  "as_list r = (case r of Inl e \<Rightarrow> Inl e | Inr xs \<Rightarrow> Inr (PList xs))"

definition as_dict :: "error + (pyval \<times> pyval) list \<Rightarrow> error + pyval" where
  "as_dict r = (case r of Inl e \<Rightarrow> Inl e | Inr kvs \<Rightarrow> Inr (PDict kvs))"

text \<open>Sizes, for the termination of the two pairs of functions below: a value read
  from an object or a bag, and an item of it, are smaller than the object or the bag.\<close>

lemma size_map_of: "map_of attrs n = Some v \<Longrightarrow> size v < Suc (size_list (size_prod (\<lambda>x. 0) size) attrs)"
  by (induction attrs) (auto split: if_splits)


lemma size_getattr: "getattr obj n = Inr v \<Longrightarrow> size (v :: pyval) < size obj"
  by (cases obj) (auto split: option.splits dest: size_map_of)

lemma size_member: "x \<in> set xs \<Longrightarrow> size (x :: pyval) < Suc (size_list size xs)"
  by (induction xs) auto

lemma size_item: "(k, v) \<in> set kvs \<Longrightarrow>
  size (k :: pyval) < Suc (size_list (size_prod size size) kvs)
  \<and> size (v :: pyval) < Suc (size_list (size_prod size size) kvs)"
  by (induction kvs) auto

lemma size_py_iter: "py_iter v = Inr xs \<Longrightarrow> x \<in> set xs \<Longrightarrow> size x \<le> size v"
proof (cases v)
  case (PList ys)
  assume "py_iter v = Inr xs" "x \<in> set xs"
  with PList have "x \<in> set ys" by auto
  then show ?thesis using PList size_member [of x ys] by simp
next
  case (PDict kvs)
  assume "py_iter v = Inr xs" "x \<in> set xs"
  with PDict obtain b where "(x, b) \<in> set kvs" by auto
  then show ?thesis using PDict size_item [of x b kvs] by simp
qed auto

lemma size_py_iter_getattr:
  "getattr obj n = Inr raw \<Longrightarrow> py_iter raw = Inr xs \<Longrightarrow> x \<in> set xs \<Longrightarrow> size x < size obj"
  using size_getattr [of obj n raw] size_py_iter [of raw xs x] by simp

lemma size_item_getattr:
  "getattr obj n = Inr (PDict kvs) \<Longrightarrow> (k, v) \<in> set kvs \<Longrightarrow> size k < size obj \<and> size v < size obj"
  using size_getattr [of obj n "PDict kvs"] size_item [of k v kvs] by simp

lemma size_dict_get:
  "dict_get kvs k = Some v \<Longrightarrow> size v < Suc (size_list (size_prod size size) kvs)"
  by (induction kvs) (auto split: if_splits)

lemma size_py_iter_dict_get:
  "dict_get bag n = Some raw \<Longrightarrow> py_iter raw = Inr xs \<Longrightarrow> x \<in> set xs
   \<Longrightarrow> size x < Suc (size_list (size_prod size size) bag)"
  using size_dict_get [of bag n raw] size_py_iter [of raw xs x] by simp

lemma size_item_dict_get:
  "dict_get bag n = Some (PDict kvs) \<Longrightarrow> (k, v) \<in> set kvs
   \<Longrightarrow> size k < Suc (size_list (size_prod size size) bag)
     \<and> size v < Suc (size_list (size_prod size size) bag)"
  using size_dict_get [of bag n "PDict kvs"] size_item [of k v kvs] by simp

text \<open>\<^verbatim>\<open>member.value\<close> of an enum member.\<close>

definition enum_value :: "class_env \<Rightarrow> string \<Rightarrow> string \<Rightarrow> error + pyval" where
  "enum_value env c m =
     (case map_of (enums env) c of
        None \<Rightarrow> Inl NotModelled
      | Some members \<Rightarrow> (case map_of members m of None \<Rightarrow> Inl AttributeError | Some v \<Rightarrow> Inr v))"

function to_dict :: "class_env \<Rightarrow> metadata \<Rightarrow> pyval \<Rightarrow> string list option \<Rightarrow> error + pyval"
  and unbuild :: "class_env \<Rightarrow> pyval \<Rightarrow> error + pyval" where
  "to_dict env meta obj select_fields =
     (case collect (map (\<lambda>(field_name, field_klass).
         if (case select_fields of Some (x # xs) \<Rightarrow> \<not> field_in (x # xs) | _ \<Rightarrow> False) then None
         else Some (field_name,
           case getattr obj field_name of
             Inl e \<Rightarrow> Inl e
           | Inr raw_value \<Rightarrow>
              (case field_klass of
                 ListOf k \<Rightarrow>
                   (case py_iter raw_value of
                      Inl e \<Rightarrow> Inl e
                    | Inr xs \<Rightarrow> as_list (sequence (map (unbuild env) xs)))
               | DictOf k1 k2 \<Rightarrow>
                   (case raw_value of
                      PDict kvs \<Rightarrow>
                        as_dict (dict_comprehension
                          (map (\<lambda>(k, v). (unbuild env k, unbuild env v)) kvs) [])
                    | _ \<Rightarrow> Inl AttributeError)
               | Plain k \<Rightarrow> unbuild env raw_value)))
         (metadata.fields' meta)) of
        Inl e \<Rightarrow> Inl e
      | Inr data \<Rightarrow> Inr (str_keys data))"
| "unbuild env v =
     (case v of
        PNone \<Rightarrow> Inr PNone
      | PDoc c attrs \<Rightarrow>
          (case map_of (metas env) c of
             None \<Rightarrow> Inl NotModelled
           | Some meta \<Rightarrow> to_dict env meta v None)
      | PEnum c m \<Rightarrow> enum_value env c m
      | _ \<Rightarrow> Inr v)"
  by pat_completeness auto

termination
proof (relation "measure (\<lambda>a. case a of
          Inl (env, meta, obj, select_fields) \<Rightarrow> 2 * size obj + 1
        | Inr (env, v) \<Rightarrow> 2 * size v + 2)", goal_cases)
  case 1
  show ?case by simp
next
  case 2
  then show ?case by (auto dest: size_getattr)
next
  case 3
  then show ?case by (auto dest: size_py_iter_getattr)
next
  case 4
  then show ?case by (auto dest: size_item_getattr)
next
  case 5
  then show ?case by (auto dest: size_item_getattr)
next
  case 6
  then show ?case by simp
qed

text \<open>
  \<^verbatim>\<open>self.doc_klass(**parsed_data)\<close>, the constructor the dataclass decorator generates:
  each field takes its keyword argument, else its default; a field with neither is a
  missing argument (\<^verbatim>\<open>TypeError\<close>).
\<close>

fun init_fields ::
  "(string \<times> ftype) list \<Rightarrow> (string \<times> pyval) list \<Rightarrow> (string \<times> pyval) list
     \<Rightarrow> error + (string \<times> pyval) list" where
  "init_fields [] dflts kwargs = Inr []"
| "init_fields ((n, t) # fs) dflts kwargs =
     (case (case map_of kwargs n of Some v \<Rightarrow> Some v | None \<Rightarrow> map_of dflts n) of
        None \<Rightarrow> Inl TypeError
      | Some v \<Rightarrow>
          (case init_fields fs dflts kwargs of
             Inl e \<Rightarrow> Inl e
           | Inr attrs \<Rightarrow> Inr ((n, v) # attrs)))"

definition construct :: "class_env \<Rightarrow> metadata \<Rightarrow> (string \<times> pyval) list \<Rightarrow> error + pyval" where
  "construct env meta kwargs =
     (case init_fields (metadata.fields' meta)
             (case map_of (defaults env) (metadata.doc_klass meta) of None \<Rightarrow> [] | Some d \<Rightarrow> d)
             kwargs of
        Inl e \<Rightarrow> Inl e
      | Inr attrs \<Rightarrow> Inr (PDoc (metadata.doc_klass meta) attrs))"

text \<open>
  \<^verbatim>\<open>klass(value)\<close>, the last line of \<^verbatim>\<open>_build\<close>, for the scalar constructors and for an
  enum class (the member with that value, or the member itself). \<^verbatim>\<open>int\<close> of a str parses
  text and is \<open>NotModelled\<close>.
\<close>

fun call_klass :: "class_env \<Rightarrow> klass \<Rightarrow> pyval \<Rightarrow> error + pyval" where
  "call_klass env KInt (PInt i) = Inr (PInt i)"
| "call_klass env KInt (PBool b) = Inr (PInt (if b then 1 else 0))"
| "call_klass env KInt (PStr s) = Inl NotModelled"
| "call_klass env KInt v = Inl TypeError"
| "call_klass env KStr v = (case py_str v of None \<Rightarrow> Inl NotModelled | Some s \<Rightarrow> Inr (PStr s))"
| "call_klass env KBool v = Inr (PBool (py_truthy v))"
| "call_klass env (KEnum c) v =
     (case map_of (enums env) c of
        None \<Rightarrow> Inl NotModelled
      | Some members \<Rightarrow>
          (case v of
             PEnum c' m \<Rightarrow>
               if c' = c \<and> m \<in> set (map fst members) then Inr v else Inl ValueError
           | _ \<Rightarrow>
               (case find (\<lambda>(m, x). key_eq x v) members of
                  None \<Rightarrow> Inl ValueError
                | Some (m, x) \<Rightarrow> Inr (PEnum c m))))"
| "call_klass env k v = Inl NotModelled"

text \<open>
  \<^verbatim>\<open>Metadata.from_dict(data)\<close> with its inner \<^verbatim>\<open>_build\<close>. \<^verbatim>\<open>data.copy()\<close> needs a dict
  (a list has \<^verbatim>\<open>copy\<close> too, and then fails at \<^verbatim>\<open>data[field_name]\<close>); a field whose name
  is no key of the bag is skipped (\<^verbatim>\<open>KeyError\<close>, \<^verbatim>\<open>continue\<close>). In the \<^verbatim>\<open>datetime\<close>
  branch \<^verbatim>\<open>str(value)\<close> of a list, dict or dataclass instance does not start with a
  digit, so \<^verbatim>\<open>fromisoformat\<close> rejects it.
\<close>

function from_dict :: "class_env \<Rightarrow> metadata \<Rightarrow> pyval \<Rightarrow> error + pyval"
  and build :: "class_env \<Rightarrow> klass \<Rightarrow> pyval \<Rightarrow> error + pyval" where
  "from_dict env meta data =
     (case data of
        PDict bag \<Rightarrow>
          (case collect (map (\<lambda>(field_name, field_klass).
              case dict_get bag (PStr field_name) of
                None \<Rightarrow> None
              | Some raw_value \<Rightarrow> Some (field_name,
                  case field_klass of
                    ListOf k \<Rightarrow>
                      (case py_iter raw_value of
                         Inl e \<Rightarrow> Inl e
                       | Inr xs \<Rightarrow> as_list (sequence (map (build env k) xs)))
                  | DictOf k1 k2 \<Rightarrow>
                      (case raw_value of
                         PDict kvs \<Rightarrow>
                           as_dict (dict_comprehension
                             (map (\<lambda>(k, v). (build env k1 k, build env k2 v)) kvs) [])
                       | _ \<Rightarrow> Inl AttributeError)
                  | Plain k \<Rightarrow> build env k raw_value))
              (metadata.fields' meta)) of
             Inl e \<Rightarrow> Inl e
           | Inr parsed_data \<Rightarrow> construct env meta parsed_data)
      | PList xs \<Rightarrow> if metadata.fields' meta = [] then construct env meta [] else Inl TypeError
      | _ \<Rightarrow> Inl AttributeError)"
| "build env klass v =
     (if v = PNone \<or> klass = KAny then Inr v
      else
        (case klass of
           KDoc c \<Rightarrow>
             (case map_of (metas env) c of
                None \<Rightarrow> Inl NotModelled
              | Some meta \<Rightarrow> from_dict env meta v)
         | KDatetime \<Rightarrow>
             (case py_str v of
                None \<Rightarrow> Inl ValueError
              | Some s \<Rightarrow>
                  (case fromisoformat s of Inl e \<Rightarrow> Inl e | Inr d \<Rightarrow> Inr (PDatetime d)))
         | _ \<Rightarrow> call_klass env klass v))"
  by pat_completeness auto

termination
proof (relation "measure (\<lambda>a. case a of
          Inl (env, meta, data) \<Rightarrow> 2 * size data + 1
        | Inr (env, klass, v) \<Rightarrow> 2 * size v + 2)", goal_cases)
  case 1
  show ?case by simp
next
  case 2
  then show ?case by (auto dest: size_dict_get)
next
  case 3
  then show ?case by (auto dest: size_py_iter_dict_get)
next
  case 4
  then show ?case by (auto dest: size_item_dict_get)
next
  case 5
  then show ?case by (auto dest: size_item_dict_get)
next
  case 6
  then show ?case by simp
qed

text \<open>
  The body of the two loops for one declared field, as a function of the field's type
  and of the value read (\<^verbatim>\<open>raw_value\<close>): what \<^verbatim>\<open>from_dict\<close> stores in
  \<^verbatim>\<open>parsed_data[field_name]\<close> and what \<^verbatim>\<open>to_dict\<close> stores in \<^verbatim>\<open>data[field_name]\<close>.
  The lemmas \<open>from_dict_fields\<close> and \<open>to_dict_fields\<close> below show that the two
  functions are these bodies applied to each field.
\<close>

definition decode_field :: "class_env \<Rightarrow> ftype \<Rightarrow> pyval \<Rightarrow> error + pyval" where
  "decode_field env field_klass raw_value =
     (case field_klass of
        ListOf k \<Rightarrow>
          (case py_iter raw_value of
             Inl e \<Rightarrow> Inl e
           | Inr xs \<Rightarrow> as_list (sequence (map (build env k) xs)))
      | DictOf k1 k2 \<Rightarrow>
          (case raw_value of
             PDict kvs \<Rightarrow>
               as_dict (dict_comprehension
                 (map (\<lambda>(k, v). (build env k1 k, build env k2 v)) kvs) [])
           | _ \<Rightarrow> Inl AttributeError)
      | Plain k \<Rightarrow> build env k raw_value)"



section \<open>Valid records\<close>




section \<open>FilterCompiler: \<^verbatim>\<open>Manager._build_filter\<close>\<close>

text \<open>The dataclass \<^verbatim>\<open>Manager\<close> (the class variable \<^verbatim>\<open>_client\<close> is the store, passed
  explicitly below).\<close>

record manager =
  fields' :: "(string \<times> ftype) list"
  pk_field :: string
  doc_klass :: string
  kind :: string

text \<open>
  \<^verbatim>\<open>Manager.lookup_operators\<close>: each suffix with the object it maps to, a native
  operator or the function \<^verbatim>\<open>_starts_with_operator\<close>.
\<close>

datatype lookup_target = Native string | StartsWithOperator

definition lookup_operators :: "(string \<times> lookup_target) list" where
  "lookup_operators =
     [(''eq'', Native ''=''), (''gt'', Native ''>''), (''gte'', Native ''>=''),
      (''lt'', Native ''<''), (''lte'', Native ''<=''), (''in'', Native ''in''),
      (''startswith'', StartsWithOperator)]"

text \<open>
  \<^verbatim>\<open>callable(operator)\<close>: in \<^verbatim>\<open>_build_filter\<close> the name \<^verbatim>\<open>operator\<close> is bound to
  \<^verbatim>\<open>extra[0]\<close>, a piece of the key and so a str, never to the object the table maps it
  to; a str is not callable.
\<close>

definition callable :: "string \<Rightarrow> bool" where
  "callable operator = False"

text \<open>
  \<^verbatim>\<open>_starts_with_operator(lookup_fields, value)\<close>; the f-string formats \<^verbatim>\<open>value\<close> with
  \<^verbatim>\<open>str\<close>.
\<close>

definition starts_with_operator :: "string list \<Rightarrow> pyval \<Rightarrow> error + (string \<times> string \<times> pyval) list" where
  "starts_with_operator lookup_fields v =
     (case py_str v of
        None \<Rightarrow> Inl NotModelled
      | Some s \<Rightarrow>
          Inr [(join ''.'' lookup_fields, ''>='', v),
               (join ''.'' lookup_fields, ''<='', PStr (s @ u_fffd))])"

text \<open>
  \<^verbatim>\<open>_build_filter(key, value)\<close>. \<^verbatim>\<open>field_name, *extra = key.split("__")\<close>; the checks
  follow in the source's order. The last line is \<^verbatim>\<open>(operator or "=")\<close>: \<open>operator\<close>
  is \<^verbatim>\<open>None\<close> when there is no suffix, and a non-empty str otherwise.
\<close>

definition build_filter :: "manager \<Rightarrow> string \<Rightarrow> pyval \<Rightarrow> error + (string \<times> string \<times> pyval) list" where
  "build_filter m key v =
     (case py_split ''__'' key of
        [] \<Rightarrow> Inl ValueError
      | field_name # extra \<Rightarrow>
          if extra \<noteq> [] \<and> length extra > 1 then Inl (UnsupportedFormatException extra)
          else if extra \<noteq> [] \<and> hd extra \<notin> set (map fst lookup_operators)
            then Inl (UnsupportedFormatException [hd extra])
          else if extra \<noteq> [] \<and> callable (hd extra)
            then starts_with_operator (py_chars field_name) v
          else
            let parts = py_split ''.'' field_name in
            if length parts > 1 \<and> hd parts \<notin> set (map fst (manager.fields' m))
            then Inl (ValidationError
                   (hd parts @ '' is not a valid field. Excepted one of ''
                      @ join '' | '' (map fst (manager.fields' m))))
            else Inr [(field_name, (case extra of [] \<Rightarrow> ''='' | operator # _ \<Rightarrow> operator), v)])"

text \<open>
  The two conditions of the lookup-key rules, read off the key alone: the key carries
  more than one \<^verbatim>\<open>__\<close>-separated suffix or a suffix that is no lookup operator; its
  field path (the piece before the first \<^verbatim>\<open>__\<close>) is dot-nested and starts with a
  segment that is no declared field.
\<close>

definition unsupported_key :: "string \<Rightarrow> bool" where
  "unsupported_key key =
     (let extra = tl (py_split ''__'' key)
      in length extra > 1 \<or> (extra \<noteq> [] \<and> hd extra \<notin> set (map fst lookup_operators)))"

definition undeclared_nested :: "manager \<Rightarrow> string \<Rightarrow> bool" where
  "undeclared_nested m key =
     (let parts = py_split ''.'' (hd (py_split ''__'' key))
      in length parts > 1 \<and> hd parts \<notin> set (map fst (manager.fields' m)))"

section \<open>The store: \<^verbatim>\<open>google.cloud.datastore\<close>\<close>

text \<open>
  The client library is an external collaborator, not code of this repository. This
  section describes the part of it the module calls, after the library's documented
  behaviour: keys, entities, keyed get, put and delete, bulk delete of at most 500 keys,
  allocation of ids, and queries with filters fetched page by page.

  A key is a kind with an integer id or a string name. An entity is a dict of properties
  with a key (\<^verbatim>\<open>Entity\<close> is a subclass of \<^verbatim>\<open>dict\<close>); \<^verbatim>\<open>entity.id\<close> is the id of its key,
  \<^verbatim>\<open>None\<close> when the key has a name.
\<close>

type_synonym key = "string \<times> pyval"

record entity =
  entity_key :: key
  props :: "(pyval \<times> pyval) list"

definition entity_id :: "entity \<Rightarrow> pyval" where
  "entity_id e = (case snd (entity_key e) of PInt i \<Rightarrow> PInt i | _ \<Rightarrow> PNone)"

text \<open>
  The state of the store: the stored entities, the last id it allocated, the size of the
  pages a query returns when the caller gives no limit, and the write calls it received
  (so that the calls of a bulk delete can be counted). Reads leave the state as it is.
\<close>

datatype write_call = Put entity | Delete key | DeleteMulti "key list" | AllocateIds string

record datastore =
  entities :: "entity list"
  last_id :: nat
  default_page :: nat
  writes :: "write_call list"

text \<open>\<^verbatim>\<open>client.key(kind, id_or_name)\<close>: an int is an id, a str is a name.\<close>

fun client_key :: "string \<Rightarrow> pyval \<Rightarrow> error + key" where
  "client_key k (PInt i) = Inr (k, PInt i)"
| "client_key k (PBool b) = Inr (k, PInt (if b then 1 else 0))"
| "client_key k (PStr n) = Inr (k, PStr n)"
| "client_key k v = Inl ValueError"

text \<open>\<^verbatim>\<open>client.allocate_ids(client.key(kind), 1)[0]\<close>: a key with a fresh, positive id.\<close>

definition allocate_ids :: "datastore \<Rightarrow> string \<Rightarrow> key \<times> datastore" where
  "allocate_ids s k =
     ((k, PInt (int (Suc (last_id s)))),
      s\<lparr>last_id := Suc (last_id s), writes := writes s @ [AllocateIds k]\<rparr>)"

definition client_get :: "datastore \<Rightarrow> key \<Rightarrow> entity option" where
  "client_get s k = find (\<lambda>e. entity_key e = k) (entities s)"

definition client_put :: "datastore \<Rightarrow> entity \<Rightarrow> datastore" where
  "client_put s e =
     s\<lparr>entities :=
          (if \<exists>x \<in> set (entities s). entity_key x = entity_key e
           then map (\<lambda>x. if entity_key x = entity_key e then e else x) (entities s)
           else entities s @ [e]),
        writes := writes s @ [Put e]\<rparr>"

definition client_delete :: "datastore \<Rightarrow> key \<Rightarrow> datastore" where
  "client_delete s k =
     s\<lparr>entities := filter (\<lambda>e. entity_key e \<noteq> k) (entities s),
        writes := writes s @ [Delete k]\<rparr>"

text \<open>\<^verbatim>\<open>client.delete_multi(keys)\<close>: the store refuses more than 500 keys in one call.\<close>

definition delete_multi :: "datastore \<Rightarrow> key list \<Rightarrow> error + datastore" where
  "delete_multi s ks =
     (if length ks > 500 then Inl StoreError
      else Inr (s\<lparr>entities := filter (\<lambda>e. entity_key e \<notin> set ks) (entities s),
                   writes := writes s @ [DeleteMulti ks]\<rparr>))"

subsection \<open>Queries\<close>

text \<open>
  A \<^verbatim>\<open>Query\<close> is a mutable object; the module holds references to it. Query objects
  live in a heap, the list of the objects made so far; an address is a position in it. \<^verbatim>\<open>client.query(kind=...)\<close> makes a
  new object. \<^verbatim>\<open>query.add_filter(name, operator, value)\<close> checks the operator, appends
  the filter to the object's own list of filters (the module relies on this at the call
  whose result it drops, in the loop over \<^verbatim>\<open>kwargs\<close>) and gives back the query it was
  called on (the module relies on this where it uses the result as a query).
  The module's parameters \<^verbatim>\<open>order_by\<close> and \<^verbatim>\<open>distinct_on\<close> are left at \<^verbatim>\<open>None\<close>
  throughout this development; the store's ordering and projection are not described.
\<close>

record query_obj =
  q_kind :: string
  q_filters :: "(string \<times> string \<times> pyval) list"

type_synonym heap = "query_obj list"

definition heap_get :: "heap \<Rightarrow> nat \<Rightarrow> query_obj option" where
  "heap_get h a = (if a < length h then Some (h ! a) else None)"

definition native_operators :: "string list" where
  "native_operators = [''<='', ''>='', ''<'', ''>'', ''='']"

definition client_query :: "heap \<Rightarrow> string \<Rightarrow> nat \<times> heap" where
  "client_query h k = (length h, h @ [\<lparr>q_kind = k, q_filters = []\<rparr>])"

definition add_filter :: "heap \<Rightarrow> nat \<Rightarrow> string \<times> string \<times> pyval \<Rightarrow> error + nat \<times> heap" where
  "add_filter h q f =
     (case heap_get h q of
        None \<Rightarrow> Inl AttributeError
      | Some obj \<Rightarrow>
          if fst (snd f) \<notin> set native_operators then Inl ValueError
          else Inr (q, h[q := obj\<lparr>q_filters := q_filters obj @ [f]\<rparr>]))"

text \<open>
  Which entities a filter selects. A property name may be a dotted path into embedded
  entities. \<^verbatim>\<open>=\<close> holds for an equal value and for a list that holds the value;
  the inequalities compare integers, and strings by their bytes.
\<close>

fun prop_path :: "(pyval \<times> pyval) list \<Rightarrow> string list \<Rightarrow> pyval option" where
  "prop_path d [] = None"
| "prop_path d [n] = dict_get d (PStr n)"
| "prop_path d (n # m # ms) =
     (case dict_get d (PStr n) of Some (PDict d') \<Rightarrow> prop_path d' (m # ms) | _ \<Rightarrow> None)"

fun str_less :: "string \<Rightarrow> string \<Rightarrow> bool" where
  "str_less [] [] = False"
| "str_less [] (y # ys) = True"
| "str_less (x # xs) [] = False"
| "str_less (x # xs) (y # ys) =
     ((of_char x :: nat) < of_char y \<or> (x = y \<and> str_less xs ys))"

fun val_less :: "pyval \<Rightarrow> pyval \<Rightarrow> bool" where
  "val_less (PInt a) (PInt b) = (a < b)"
| "val_less (PStr a) (PStr b) = str_less a b"
| "val_less a b = False"

definition satisfies :: "pyval \<Rightarrow> string \<Rightarrow> pyval \<Rightarrow> bool" where
  "satisfies stored operator v =
     (if operator = ''='' then stored = v \<or> (case stored of PList xs \<Rightarrow> v \<in> set xs | _ \<Rightarrow> False)
      else if operator = ''<'' then val_less stored v
      else if operator = ''<='' then val_less stored v \<or> stored = v
      else if operator = ''>'' then val_less v stored
      else if operator = ''>='' then val_less v stored \<or> stored = v
      else False)"

definition matches :: "entity \<Rightarrow> string \<times> string \<times> pyval \<Rightarrow> bool" where
  "matches e f =
     (case prop_path (props e) (py_split ''.'' (fst f)) of
        None \<Rightarrow> False
      | Some stored \<Rightarrow> satisfies stored (fst (snd f)) (snd (snd f)))"

definition run_query :: "datastore \<Rightarrow> query_obj \<Rightarrow> entity list" where
  "run_query s q =
     filter (\<lambda>e. fst (entity_key e) = q_kind q \<and> list_all (matches e) (q_filters q))
       (entities s)"

text \<open>
  \<^verbatim>\<open>query.fetch(start_cursor=cursor, limit=page_size)\<close>, then the first of its pages and
  its \<^verbatim>\<open>next_page_token\<close>: the results from the cursor on, at most a page of them, and a
  cursor behind the page when results are left.
\<close>

definition fetch ::
  "datastore \<Rightarrow> query_obj \<Rightarrow> nat option \<Rightarrow> nat option \<Rightarrow> entity list \<times> nat option" where
  "fetch s q start_cursor limit =
     (let results = run_query s q;
          start = (case start_cursor of None \<Rightarrow> 0 | Some c \<Rightarrow> c);
          page = take (case limit of None \<Rightarrow> default_page s | Some n \<Rightarrow> n) (drop start results)
      in (page,
          if page \<noteq> [] \<and> start + length page < length results
          then Some (start + length page) else None))"

section \<open>QueryExecutor and RecordStore: the other methods of \<^verbatim>\<open>Manager\<close>\<close>

text \<open>\<^verbatim>\<open>MAX_ITEMS_PER_OPERATIONS\<close>.\<close>

definition MAX_ITEMS_PER_OPERATIONS :: nat where
  "MAX_ITEMS_PER_OPERATIONS = 500"

text \<open>
  \<^verbatim>\<open>range(start, stop, step)\<close> for a positive step (Python raises \<^verbatim>\<open>ValueError\<close> for
  step 0; the module's step is the constant above), and \<^verbatim>\<open>_chunks(lst, n)\<close>, which
  yields the slice \<^verbatim>\<open>lst[i : i + n]\<close> for each \<open>i\<close> of the range.
\<close>

function py_range :: "nat \<Rightarrow> nat \<Rightarrow> nat \<Rightarrow> nat list" where
  "py_range i stop step =
     (if i < stop \<and> 0 < step then i # py_range (i + step) stop step else [])"
  by pat_completeness auto
termination
  by (relation "measure (\<lambda>(i, stop, step). stop - i)") auto

definition chunks :: "'a list \<Rightarrow> nat \<Rightarrow> 'a list list" where
  "chunks lst n = map (\<lambda>i. take n (drop i lst)) (py_range 0 (length lst) n)"

text \<open>
  \<^verbatim>\<open>build_key(pk)\<close>. The type of the primary-key field is called on \<^verbatim>\<open>pk\<close>
  (\<^verbatim>\<open>Meta.fields[pk_field](pk)\<close>); calling a \<^verbatim>\<open>List\<close> or \<^verbatim>\<open>Dict\<close> annotation is not
  described.
\<close>

definition meta_of :: "class_env \<Rightarrow> manager \<Rightarrow> error + metadata" where
  "meta_of env m =
     (case map_of (metas env) (manager.doc_klass m) of
        None \<Rightarrow> Inl NotModelled
      | Some meta \<Rightarrow> Inr meta)"

fun call_annotation :: "class_env \<Rightarrow> ftype \<Rightarrow> pyval \<Rightarrow> error + pyval" where
  "call_annotation env (Plain k) v = call_klass env k v"
| "call_annotation env t v = Inl NotModelled"

definition build_key :: "class_env \<Rightarrow> manager \<Rightarrow> datastore \<Rightarrow> pyval \<Rightarrow> error + key \<times> datastore" where
  "build_key env m s pk =
     (if py_truthy pk then
        (case meta_of env m of
           Inl e \<Rightarrow> Inl e
         | Inr meta \<Rightarrow>
            (case map_of (metadata.fields' meta) (manager.pk_field m) of
               None \<Rightarrow> Inl KeyError
             | Some t \<Rightarrow>
                (case call_annotation env t pk of
                   Inl e \<Rightarrow> Inl e
                 | Inr typed_pk \<Rightarrow>
                    (case client_key (kind m) typed_pk of
                       Inl e \<Rightarrow> Inl e
                     | Inr k \<Rightarrow> Inr (k, s)))))
      else Inr (allocate_ids s (kind m)))"

text \<open>
  \<^verbatim>\<open>_iterate(query, page_size)\<close>: fetch a page from the cursor, yield its items, go on
  from the page's token until there is none. The list is what the generator yields.
\<close>

function iterate :: "datastore \<Rightarrow> heap \<Rightarrow> nat \<Rightarrow> nat option \<Rightarrow> nat option \<Rightarrow> entity list" where
  "iterate s h q page_size cursor =
     (case heap_get h q of
        None \<Rightarrow> []
      | Some obj \<Rightarrow>
          (case fetch s obj cursor page_size of
             (page, None) \<Rightarrow> page
           | (page, Some token) \<Rightarrow> page @ iterate s h q page_size (Some token)))"
  by pat_completeness auto
termination
proof (relation "measure (\<lambda>(s, h, q, page_size, cursor).
          case heap_get h q of
            None \<Rightarrow> 0
          | Some obj \<Rightarrow> Suc (length (run_query s obj))
                        - (case cursor of None \<Rightarrow> 0 | Some c \<Rightarrow> Suc c))", goal_cases)
  case 1
  show ?case by simp
next
  case 2
  then show ?case
    by (auto simp: fetch_def Let_def split: option.splits if_splits)
qed

text \<open>
  \<^verbatim>\<open>query(**kwargs)\<close>, with \<^verbatim>\<open>order_by\<close> and \<^verbatim>\<open>distinct_on\<close> left at \<^verbatim>\<open>None\<close>. The
  keyword arguments are a dict from str, here the list of its items in order. The two
  nested loops that parse the lookups: a filter with the operator \<^verbatim>\<open>in\<close> is kept as a
  cross filter, any other is added to the query object.
\<close>

fun route_filters ::
  "heap \<Rightarrow> nat \<Rightarrow> (string \<times> string \<times> pyval) list \<Rightarrow> (string \<times> string \<times> pyval) list
     \<Rightarrow> error + heap \<times> (string \<times> string \<times> pyval) list" where
  "route_filters h q [] cross_filters = Inr (h, cross_filters)"
| "route_filters h q ((field_name, operator, field_value) # fs) cross_filters =
     (if operator = ''in''
      then route_filters h q fs (cross_filters @ [(field_name, operator, field_value)])
      else
        (case add_filter h q (field_name, operator, field_value) of
           Inl e \<Rightarrow> Inl e
         | Inr (q', h') \<Rightarrow> route_filters h' q fs cross_filters))"

fun parse_lookups ::
  "manager \<Rightarrow> heap \<Rightarrow> nat \<Rightarrow> (string \<times> pyval) list \<Rightarrow> (string \<times> string \<times> pyval) list
     \<Rightarrow> error + heap \<times> (string \<times> string \<times> pyval) list" where
  "parse_lookups m h q [] cross_filters = Inr (h, cross_filters)"
| "parse_lookups m h q ((k, v) # kwargs) cross_filters =
     (case build_filter m k v of
        Inl e \<Rightarrow> Inl e
      | Inr all_filters \<Rightarrow>
          (case route_filters h q all_filters cross_filters of
             Inl e \<Rightarrow> Inl e
           | Inr (h', cross_filters') \<Rightarrow> parse_lookups m h' q kwargs cross_filters'))"

text \<open>
  \<^verbatim>\<open>options = defaultdict(list)\<close> and \<^verbatim>\<open>options[name].append((name, "=", value))\<close>: the
  equality filters of each cross field, the fields in the order they first appear.
\<close>

fun options_append ::
  "(string \<times> (string \<times> string \<times> pyval) list) list \<Rightarrow> string \<Rightarrow> string \<times> string \<times> pyval
     \<Rightarrow> (string \<times> (string \<times> string \<times> pyval) list) list" where
  "options_append [] name f = [(name, [f])]"
| "options_append ((n, fs) # rest) name f =
     (if n = name then (n, fs @ [f]) # rest else (n, fs) # options_append rest name f)"

fun prepare_options ::
  "(string \<times> string \<times> pyval) list \<Rightarrow> (string \<times> (string \<times> string \<times> pyval) list) list
     \<Rightarrow> error + (string \<times> (string \<times> string \<times> pyval) list) list" where
  "prepare_options [] options = Inr options"
| "prepare_options ((name, operator, vals) # cross_filters) options =
     (case py_iter vals of
        Inl e \<Rightarrow> Inl e
      | Inr vs \<Rightarrow>
          prepare_options cross_filters
            (fold (\<lambda>v opts. options_append opts name (name, ''='', v)) vs options))"

text \<open>
  The loop over the combinations (\<^verbatim>\<open>itertools.product\<close> is \<open>product_lists\<close>). Each
  round starts with \<^verbatim>\<open>current_query = query\<close>: the reference is copied, not the object,
  so the filters the round adds go to the one query object of the call. \<open>found\<close> holds
  the ids yielded so far.
\<close>

fun add_filters :: "heap \<Rightarrow> nat \<Rightarrow> (string \<times> string \<times> pyval) list \<Rightarrow> error + nat \<times> heap" where
  "add_filters h current_query [] = Inr (current_query, h)"
| "add_filters h current_query (f # fs) =
     (case add_filter h current_query f of
        Inl e \<Rightarrow> Inl e
      | Inr (current_query', h') \<Rightarrow> add_filters h' current_query' fs)"

fun yield_new :: "entity list \<Rightarrow> pyval list \<Rightarrow> entity list \<times> pyval list" where
  "yield_new [] found = ([], found)"
| "yield_new (item # items) found =
     (if entity_id item \<in> set found then yield_new items found
      else (case yield_new items (found @ [entity_id item]) of
              (ys, found') \<Rightarrow> (item # ys, found')))"

fun run_combinations ::
  "datastore \<Rightarrow> heap \<Rightarrow> nat \<Rightarrow> nat option \<Rightarrow> (string \<times> string \<times> pyval) list list \<Rightarrow> pyval list
     \<Rightarrow> error + entity list" where
  "run_combinations s h query page_size [] found = Inr []"
| "run_combinations s h query page_size (combination # rest) found =
     (case add_filters h query combination of
        Inl e \<Rightarrow> Inl e
      | Inr (current_query, h') \<Rightarrow>
          (case yield_new (iterate s h' current_query page_size None) found of
             (ys, found') \<Rightarrow>
               (case run_combinations s h' query page_size rest found' of
                  Inl e \<Rightarrow> Inl e
                | Inr later \<Rightarrow> Inr (ys @ later))))"

definition query :: "manager \<Rightarrow> datastore \<Rightarrow> nat option \<Rightarrow> (string \<times> pyval) list \<Rightarrow> error + entity list" where
  "query m s page_size kwargs =
     (case client_query [] (kind m) of
        (q, h) \<Rightarrow>
          (case parse_lookups m h q kwargs [] of
             Inl e \<Rightarrow> Inl e
           | Inr (h', cross_filters) \<Rightarrow>
               if cross_filters = [] then Inr (iterate s h' q page_size None)
               else
                 (case prepare_options cross_filters [] of
                    Inl e \<Rightarrow> Inl e
                  | Inr options \<Rightarrow>
                      run_combinations s h' q page_size (product_lists (map snd options)) [])))"

text \<open>
  \<^verbatim>\<open>from_entity(entity)\<close>: the properties of the entity, with the id of its key under
  the primary-key field when they do not hold that field, decoded by \<^verbatim>\<open>from_dict\<close>.
\<close>

definition from_entity :: "class_env \<Rightarrow> manager \<Rightarrow> entity \<Rightarrow> error + pyval" where
  "from_entity env m e =
     (case meta_of env m of
        Inl err \<Rightarrow> Inl err
      | Inr meta \<Rightarrow>
          from_dict env meta
            (PDict (case dict_get (props e) (PStr (manager.pk_field m)) of
                      None \<Rightarrow> dict_set (props e) (PStr (manager.pk_field m)) (entity_id e)
                    | Some v \<Rightarrow> props e)))"

text \<open>
  The call \<^verbatim>\<open>self.query(**kwargs)\<close> in \<^verbatim>\<open>filter\<close>: the keywords \<^verbatim>\<open>distinct_on\<close>,
  \<^verbatim>\<open>order_by\<close> and \<^verbatim>\<open>page_size\<close> are the parameters of \<^verbatim>\<open>query\<close> with those names
  (\<^verbatim>\<open>None\<close> when absent), the other keywords are its lookups. A true \<^verbatim>\<open>order_by\<close> or
  \<^verbatim>\<open>distinct_on\<close> sets the order or the projection of the store's query, which the store
  described here does not have (\<open>NotModelled\<close>); \<^verbatim>\<open>page_size\<close> is \<^verbatim>\<open>None\<close> or the limit
  of a page, a positive int.
\<close>

definition query_parameters :: "string list" where
  "query_parameters = [''distinct_on'', ''order_by'', ''page_size'']"

definition keyword :: "(string \<times> pyval) list \<Rightarrow> string \<Rightarrow> pyval" where
  "keyword kwargs name = (case map_of kwargs name of None \<Rightarrow> PNone | Some v \<Rightarrow> v)"

definition call_query :: "manager \<Rightarrow> datastore \<Rightarrow> (string \<times> pyval) list \<Rightarrow> error + entity list" where
  "call_query m s kwargs =
     (let distinct_on = keyword kwargs ''distinct_on'';
          order_by = keyword kwargs ''order_by'';
          page_size = keyword kwargs ''page_size'';
          lookups = filter (\<lambda>(k, v). k \<notin> set query_parameters) kwargs
      in if py_truthy order_by \<or> py_truthy distinct_on then Inl NotModelled
         else
           (case page_size of
              PNone \<Rightarrow> query m s None lookups
            | PInt n \<Rightarrow> if 0 < n then query m s (Some (nat n)) lookups else Inl NotModelled
            | _ \<Rightarrow> Inl NotModelled))"

text \<open>
  \<^verbatim>\<open>filter(**kwargs)\<close> is a generator: it gives the entities of the query one by one to
  \<^verbatim>\<open>from_entity\<close>, so each item of its stream is a record or the error raised at that
  item.
\<close>

definition filter' ::
  "class_env \<Rightarrow> manager \<Rightarrow> datastore \<Rightarrow> (string \<times> pyval) list \<Rightarrow> error + (error + pyval) list" where
  "filter' env m s kwargs =
     (case call_query m s kwargs of
        Inl e \<Rightarrow> Inl e
      | Inr es \<Rightarrow> Inr (map (from_entity env m) es))"

text \<open>
  \<^verbatim>\<open>get(**kwargs)\<close>. The keyword arguments as the dict the errors carry; the loop
  \<^verbatim>\<open>for obj in self.filter(**kwargs)\<close> with its variable \<^verbatim>\<open>one_obj\<close>. An entity is a
  dict, so \<^verbatim>\<open>if entity:\<close> is false for no entity and for an entity with no properties.
  The store is returned along with the result, since \<^verbatim>\<open>build_key\<close> allocates an id
  when \<^verbatim>\<open>pk\<close> is false.
\<close>

definition kwargs_dict :: "(string \<times> pyval) list \<Rightarrow> pyval" where
  "kwargs_dict kwargs = PDict (map (\<lambda>(k, v). (PStr k, v)) kwargs)"

fun one_obj_loop :: "string \<Rightarrow> pyval \<Rightarrow> (error + pyval) list \<Rightarrow> pyval option \<Rightarrow> error + pyval" where
  "one_obj_loop cls filters [] None = Inl (DoesNotExist cls filters)"
| "one_obj_loop cls filters [] (Some one_obj) =
     (if py_truthy one_obj then Inr one_obj else Inl (DoesNotExist cls filters))"
| "one_obj_loop cls filters (Inl e # rest) one_obj = Inl e"
| "one_obj_loop cls filters (Inr obj # rest) None = one_obj_loop cls filters rest (Some obj)"
| "one_obj_loop cls filters (Inr obj # rest) (Some one_obj) =
     Inl (MultipleObjectsFound cls filters)"

definition get ::
  "class_env \<Rightarrow> manager \<Rightarrow> datastore \<Rightarrow> (string \<times> pyval) list \<Rightarrow> (error + pyval) \<times> datastore" where
  "get env m s kwargs =
     (case map_of kwargs (manager.pk_field m) of
        Some pk \<Rightarrow>
          (case build_key env m s pk of
             Inl e \<Rightarrow> (Inl e, s)
           | Inr (k, s') \<Rightarrow>
               (case client_get s' k of
                  None \<Rightarrow> (Inl (DoesNotExist (manager.doc_klass m) pk), s')
                | Some entity \<Rightarrow>
                    if props entity \<noteq> [] then (from_entity env m entity, s')
                    else (Inl (DoesNotExist (manager.doc_klass m) pk), s')))
      | None \<Rightarrow>
          (case filter' env m s kwargs of
             Inl e \<Rightarrow> (Inl e, s)
           | Inr objs \<Rightarrow>
               (one_obj_loop (manager.doc_klass m) (kwargs_dict kwargs) objs None, s)))"

text \<open>
  The property \<^verbatim>\<open>Document.pk\<close>, \<^verbatim>\<open>getattr(self, self.Meta.pk_field, None)\<close>, and
  \<^verbatim>\<open>setattr(obj, name, value)\<close> on a record.
\<close>

definition doc_pk :: "class_env \<Rightarrow> pyval \<Rightarrow> error + pyval" where
  "doc_pk env obj =
     (case obj of
        PDoc c attrs \<Rightarrow>
          (case map_of (metas env) c of
             None \<Rightarrow> Inl NotModelled
           | Some meta \<Rightarrow>
               (case metadata.pk_field meta of
                  None \<Rightarrow> Inl TypeError
                | Some f \<Rightarrow> Inr (case map_of attrs f of None \<Rightarrow> PNone | Some v \<Rightarrow> v)))
      | _ \<Rightarrow> Inl AttributeError)"

fun set_attr :: "(string \<times> pyval) list \<Rightarrow> string \<Rightarrow> pyval \<Rightarrow> (string \<times> pyval) list" where
  "set_attr [] n v = [(n, v)]"
| "set_attr ((n', v') # attrs) n v =
     (if n' = n then (n, v) # attrs else (n', v') # set_attr attrs n v)"

definition set_pk :: "class_env \<Rightarrow> pyval \<Rightarrow> pyval \<Rightarrow> error + pyval" where
  "set_pk env obj v =
     (case obj of
        PDoc c attrs \<Rightarrow>
          (case map_of (metas env) c of
             None \<Rightarrow> Inl NotModelled
           | Some meta \<Rightarrow>
               (case metadata.pk_field meta of
                  None \<Rightarrow> Inl TypeError
                | Some f \<Rightarrow> Inr (PDoc c (set_attr attrs f v))))
      | _ \<Rightarrow> Inl AttributeError)"

text \<open>
  \<^verbatim>\<open>to_entity(obj)\<close> and \<^verbatim>\<open>create(obj)\<close>. Both change \<^verbatim>\<open>obj\<close> in place; here the
  changed record is returned, with the store. \<^verbatim>\<open>entity.update(d)\<close> stores each item of
  the dict \<^verbatim>\<open>d\<close>.
\<close>

definition to_entity ::
  "class_env \<Rightarrow> manager \<Rightarrow> datastore \<Rightarrow> pyval \<Rightarrow> error + entity \<times> pyval \<times> datastore" where
  "to_entity env m s obj =
     (case doc_pk env obj of
        Inl e \<Rightarrow> Inl e
      | Inr pk \<Rightarrow>
          (case build_key env m s pk of
             Inl e \<Rightarrow> Inl e
           | Inr (k, s') \<Rightarrow>
               (case (if \<not> py_truthy pk
                      then set_pk env obj (entity_id \<lparr>entity_key = k, props = []\<rparr>)
                      else Inr obj) of
                  Inl e \<Rightarrow> Inl e
                | Inr obj' \<Rightarrow>
                    (case obj' of
                       PDoc c attrs \<Rightarrow>
                         (case map_of (metas env) c of
                            None \<Rightarrow> Inl NotModelled
                          | Some meta \<Rightarrow>
                              (case to_dict env meta obj' None of
                                 Inl e \<Rightarrow> Inl e
                               | Inr (PDict d) \<Rightarrow>
                                   Inr (\<lparr>entity_key = k,
                                         props = fold (\<lambda>(a, b) acc. dict_set acc a b) d []\<rparr>,
                                        obj', s')
                               | Inr _ \<Rightarrow> Inl TypeError))
                     | _ \<Rightarrow> Inl AttributeError))))"

definition create :: "class_env \<Rightarrow> manager \<Rightarrow> datastore \<Rightarrow> pyval \<Rightarrow> error + pyval \<times> datastore" where
  "create env m s obj =
     (case to_entity env m s obj of
        Inl e \<Rightarrow> Inl e
      | Inr (entity, obj', s') \<Rightarrow>
          (case doc_pk env obj' of
             Inl e \<Rightarrow> Inl e
           | Inr pk \<Rightarrow>
               (case (if \<not> py_truthy pk then set_pk env obj' (entity_id entity) else Inr obj') of
                  Inl e \<Rightarrow> Inl e
                | Inr obj'' \<Rightarrow> Inr (obj'', client_put s' entity))))"

text \<open>\<^verbatim>\<open>delete(pk)\<close>: one bulk delete for each chunk of the keys of the kind.\<close>

fun delete_chunks :: "datastore \<Rightarrow> key list list \<Rightarrow> error + datastore" where
  "delete_chunks s [] = Inr s"
| "delete_chunks s (chunk # rest) =
     (case delete_multi s chunk of
        Inl e \<Rightarrow> Inl e
      | Inr s' \<Rightarrow> delete_chunks s' rest)"

definition delete :: "class_env \<Rightarrow> manager \<Rightarrow> datastore \<Rightarrow> pyval \<Rightarrow> error + datastore" where
  "delete env m s pk =
     (if py_truthy pk then
        (case build_key env m s pk of
           Inl e \<Rightarrow> Inl e
         | Inr (k, s') \<Rightarrow> Inr (client_delete s' k))
      else
        (case query m s None [] of
           Inl e \<Rightarrow> Inl e
         | Inr es \<Rightarrow> delete_chunks s (chunks (map entity_key es) MAX_ITEMS_PER_OPERATIONS)))"

text \<open>The keys of the stored entities of the manager's kind, in the store's order.\<close>

definition kind_keys :: "manager \<Rightarrow> datastore \<Rightarrow> key list" where
  "kind_keys m s = map entity_key (filter (\<lambda>e. fst (entity_key e) = kind m) (entities s))"


section \<open>An example program\<close>

text \<open>
  Two document classes, an embedded \<^verbatim>\<open>Address\<close> and a concrete \<^verbatim>\<open>Person\<close> whose
  fields all have defaults, and an enum \<^verbatim>\<open>Color\<close>; the closed theorems below are stated
  on them.
\<close>

definition address_meta :: metadata where
  "address_meta = \<lparr>metadata.fields' = [(''street'', Plain KStr), (''zip'', Plain KInt)],
     doc_klass = ''Address'', pk_field = None\<rparr>"

definition person_meta :: metadata where
  "person_meta = \<lparr>metadata.fields' =
       [(''id'', Plain KInt), (''name'', Plain KStr), (''home'', Plain (KDoc ''Address'')),
        (''tags'', ListOf KStr), (''scores'', DictOf KStr KInt)],
     doc_klass = ''Person'', pk_field = Some ''id''\<rparr>"

definition example_env :: class_env where
  "example_env = \<lparr>metas = [(''Address'', address_meta), (''Person'', person_meta)],
     defaults = [(''Person'', [(''id'', PNone), (''name'', PNone), (''home'', PNone),
                   (''tags'', PList []), (''scores'', PDict [])])],
     enums = [(''Color'', [(''RED'', PInt 1), (''BLUE'', PInt 2)])]\<rparr>"

definition ann :: pyval where
  "ann = PDoc ''Person''
     [(''id'', PInt 7), (''name'', PStr ''Ann''),
      (''home'', PDoc ''Address'' [(''street'', PStr ''Main''), (''zip'', PInt 123)]),
      (''tags'', PList [PStr ''a'', PStr ''b'']), (''scores'', PDict [(PStr ''x'', PInt 1)])]"

text \<open>The manager of \<^verbatim>\<open>Person\<close>, and a store holding 1200 records of that kind.\<close>

definition person_manager :: manager where
  "person_manager = \<lparr>manager.fields' = metadata.fields' person_meta, pk_field = ''id'',
     doc_klass = ''Person'', kind = ''Person''\<rparr>"

definition big_store :: datastore where
  "big_store = \<lparr>entities = map (\<lambda>i. \<lparr>entity_key = (''Person'', PInt (int i)), props = []\<rparr>) [1..<1201],
     last_id = 1200, default_page = 300, writes = []\<rparr>"


text \<open>
  A store with five records of the kind \<^verbatim>\<open>Person\<close>: the records 1 to 4 are active,
  the record 5 is closed and carries the property \<^verbatim>\<open>id = 1\<close>. An empty store. A new
  record \<^verbatim>\<open>bob\<close> with a given primary key, the entity written for it under the id 6, and
  the record a stored entity with only \<^verbatim>\<open>id\<close> and \<^verbatim>\<open>status\<close> decodes to.
\<close>

definition record_of :: "int \<Rightarrow> string \<Rightarrow> entity" where
  "record_of i status =
     \<lparr>entity_key = (''Person'', PInt i), props = [(PStr ''id'', PInt i), (PStr ''status'', PStr status)]\<rparr>"

definition people_store :: datastore where
  "people_store = \<lparr>entities = [record_of 1 ''active'', record_of 2 ''active'', record_of 3 ''active'',
       record_of 4 ''active'', record_of 1 ''closed''\<lparr>entity_key := (''Person'', PInt 5)\<rparr>],
     last_id = 5, default_page = 2, writes = []\<rparr>"

definition bob :: "pyval \<Rightarrow> pyval" where
  "bob pk = PDoc ''Person'' [(''id'', pk), (''name'', PStr ''Bob''), (''home'', PNone),
     (''tags'', PList []), (''scores'', PDict [])]"

definition bob_entity :: entity where
  "bob_entity = \<lparr>entity_key = (''Person'', PInt 6),
     props = [(PStr ''id'', PInt 6), (PStr ''name'', PStr ''Bob''), (PStr ''home'', PNone),
       (PStr ''tags'', PList []), (PStr ''scores'', PDict [])]\<rparr>"

definition person_defaults :: "pyval \<Rightarrow> pyval" where
  "person_defaults pk = PDoc ''Person'' [(''id'', pk), (''name'', PNone), (''home'', PNone),
     (''tags'', PList []), (''scores'', PDict [])]"

definition empty_store :: datastore where
  "empty_store = \<lparr>entities = [], last_id = 0, default_page = 300, writes = []\<rparr>"








section \<open>Properties of the FilterCompiler\<close>

declare split_from.simps [simp del]

lemma split_from_nonempty: "split_from sep cur s \<noteq> []"
  by (induction sep cur s rule: split_from.induct) (subst split_from.simps, simp)

lemma py_split_nonempty: "py_split sep s \<noteq> []"
  by (simp add: py_split_def split_from_nonempty)

lemma split_from_absent: "c \<notin> set s \<Longrightarrow> split_from [c] cur s = [cur @ s]"
proof (induction s arbitrary: cur)
  case Nil
  then show ?case by (simp add: split_from.simps)
next
  case (Cons a s)
  then show ?case by (subst split_from.simps) auto
qed

lemma py_split_absent: "c \<notin> set s \<Longrightarrow> py_split [c] s = [s]"
  by (simp add: py_split_def split_from_absent)

text \<open>Splitting loses nothing: joining the pieces with the separator gives the key back.\<close>

lemma join_split_from: "sep \<noteq> [] \<Longrightarrow> join sep (split_from sep cur s) = cur @ s"
proof (induction sep cur s rule: split_from.induct)
  case (1 sep cur s)
  show ?case
  proof (cases "s = []")
    case True
    then show ?thesis by (simp add: split_from.simps)
  next
    case False
    show ?thesis
    proof (cases "prefix sep s")
      case True
      then obtain r where r: "s = sep @ r" by (auto simp: prefix_def)
      from 1 False True have "join sep (split_from sep [] (drop (length sep) s)) = drop (length sep) s"
        by simp
      moreover obtain y ys where "split_from sep [] (drop (length sep) s) = y # ys"
        using split_from_nonempty by (cases "split_from sep [] (drop (length sep) s)") auto
      ultimately show ?thesis using False True 1(3) r
        by (subst split_from.simps) simp
    next
      case nf: False
      with 1 False show ?thesis
        by (subst split_from.simps) simp
    qed
  qed
qed

lemma join_py_split: "sep \<noteq> [] \<Longrightarrow> join sep (py_split sep s) = s"
  by (simp add: py_split_def join_split_from)

text \<open>
  C10. A key whose field path has no dot, with no suffix or with one suffix that is a
  lookup operator, compiles to the single predicate (field path, operator, value), where
  the operator is \<^verbatim>\<open>=\<close> without a suffix and the suffix otherwise. The manager \<open>m\<close> is
  arbitrary: nothing is asked of its declared fields, so the field name need not be
  declared.
\<close>

theorem build_filter_single_segment:
  assumes "py_split ''__'' key = field_name # extra"
    and "CHR ''.'' \<notin> set field_name"
    and "extra = [] \<or> (\<exists>operator. extra = [operator] \<and> operator \<in> set (map fst lookup_operators))"
  shows "build_filter m key v =
           Inr [(field_name, (if extra = [] then ''='' else hd extra), v)]"
proof -
  have parts: "py_split ''.'' field_name = [field_name]"
    using assms(2) by (rule py_split_absent)
  from assms(3) show ?thesis
  proof
    assume "extra = []"
    with assms(1) parts show ?thesis by (simp add: build_filter_def)
  next
    assume "\<exists>operator. extra = [operator] \<and> operator \<in> set (map fst lookup_operators)"
    then obtain operator where "extra = [operator]" "operator \<in> set (map fst lookup_operators)"
      by blast
    with assms(1) parts show ?thesis by (simp add: build_filter_def callable_def)
  qed
qed

theorem build_filter_single_segment_witness:
  "py_split ''__'' ''nickname__gte'' = [''nickname'', ''gte'']
   \<and> ''nickname'' \<notin> set (map fst [(''name'', Plain KStr)])
   \<and> build_filter \<lparr>fields' = [(''name'', Plain KStr)], pk_field = ''id'',
        doc_klass = ''Person'', kind = ''Person''\<rparr> ''nickname__gte'' (PInt 3)
       = Inr [(''nickname'', ''gte'', PInt 3)]"
proof -
  have s: "py_split ''__'' ''nickname__gte'' = ''nickname'' # [''gte'']"
    by (simp add: py_split_def split_from.simps)
  have d: "CHR ''.'' \<notin> set ''nickname''" by simp
  have k: "[''gte''] = [] \<or> (\<exists>operator. [''gte''] = [operator] \<and> operator \<in> set (map fst lookup_operators))"
    by (simp add: lookup_operators_def)
  show ?thesis
    using s build_filter_single_segment [OF s d k, of
        "\<lparr>fields' = [(''name'', Plain KStr)], pk_field = ''id'',
          doc_klass = ''Person'', kind = ''Person''\<rparr>" "PInt 3"]
    by simp
qed

text \<open>
  C6 (as amended). Compilation fails with \<open>UnsupportedFormatException\<close> exactly when the
  key carries an unknown suffix or more than one suffix; it fails with \<open>ValidationError\<close>
  exactly when the key is not rejected in that way and its field path is dot-nested with
  an undeclared leading segment, and the message then lists the declared fields; every
  other key compiles to one predicate.
\<close>

theorem build_filter_errors:
  "((\<exists>d. build_filter m key v = Inl (UnsupportedFormatException d)) \<longleftrightarrow> unsupported_key key)
   \<and> ((\<exists>msg. build_filter m key v = Inl (ValidationError msg))
        \<longleftrightarrow> (\<not> unsupported_key key \<and> undeclared_nested m key))
   \<and> (\<forall>msg. build_filter m key v = Inl (ValidationError msg) \<longrightarrow>
         msg = hd (py_split ''.'' (hd (py_split ''__'' key)))
               @ '' is not a valid field. Excepted one of ''
               @ join '' | '' (map fst (manager.fields' m)))
   \<and> (\<not> unsupported_key key \<and> \<not> undeclared_nested m key \<longrightarrow>
        (\<exists>operator. build_filter m key v = Inr [(hd (py_split ''__'' key), operator, v)]))"
proof -
  obtain field_name extra where s: "py_split ''__'' key = field_name # extra"
    using py_split_nonempty [of "''__''" key] by (cases "py_split ''__'' key") auto
  show ?thesis
  proof (cases extra)
    case Nil
    with s show ?thesis
      by (auto simp: build_filter_def unsupported_key_def undeclared_nested_def Let_def)
  next
    case (Cons operator rest)
    show ?thesis
    proof (cases rest)
      case Nil
      with s Cons show ?thesis
        by (auto simp: build_filter_def unsupported_key_def undeclared_nested_def Let_def
            callable_def)
    next
      case (Cons b more)
      with s \<open>extra = operator # rest\<close> show ?thesis
        by (auto simp: build_filter_def unsupported_key_def undeclared_nested_def Let_def)
    qed
  qed
qed

theorem build_filter_errors_witness:
  "\<not> unsupported_key ''bogus.sub''
   \<and> undeclared_nested \<lparr>fields' = [(''name'', Plain KStr), (''age'', Plain KInt)],
        pk_field = ''id'', doc_klass = ''Person'', kind = ''Person''\<rparr> ''bogus.sub''
   \<and> build_filter \<lparr>fields' = [(''name'', Plain KStr), (''age'', Plain KInt)],
        pk_field = ''id'', doc_klass = ''Person'', kind = ''Person''\<rparr> ''bogus.sub'' (PInt 1)
       = Inl (ValidationError ''bogus is not a valid field. Excepted one of name | age'')"
  using build_filter_errors [of
      "\<lparr>fields' = [(''name'', Plain KStr), (''age'', Plain KInt)],
        pk_field = ''id'', doc_klass = ''Person'', kind = ''Person''\<rparr>" "''bogus.sub''" "PInt 1"]
  by (simp add: build_filter_def unsupported_key_def undeclared_nested_def py_split_def
      split_from.simps)

text \<open>
  C6, the claim as stated, fails: the key \<^verbatim>\<open>bogus.sub__unknown\<close> has a dot-nested field
  path whose leading segment is not declared, and compilation does not fail with
  \<open>ValidationError\<close>: the suffix is checked first.
\<close>

theorem build_filter_errors_counterexample:
  "undeclared_nested \<lparr>fields' = [(''name'', Plain KStr), (''age'', Plain KInt)],
        pk_field = ''id'', doc_klass = ''Person'', kind = ''Person''\<rparr> ''bogus.sub__unknown''
   \<and> build_filter \<lparr>fields' = [(''name'', Plain KStr), (''age'', Plain KInt)],
        pk_field = ''id'', doc_klass = ''Person'', kind = ''Person''\<rparr> ''bogus.sub__unknown'' (PInt 1)
       = Inl (UnsupportedFormatException [''unknown''])"
  by (simp add: build_filter_def undeclared_nested_def py_split_def split_from.simps
      lookup_operators_def)

text \<open>
  C2. The code at \<^verbatim>\<open>name__startswith="ab"\<close>: one predicate, carrying the literal
  operator \<^verbatim>\<open>startswith\<close>, and not the two range predicates that
  \<^verbatim>\<open>_starts_with_operator\<close> would build.
\<close>

theorem build_filter_startswith:
  "build_filter \<lparr>fields' = [(''name'', Plain KStr)], pk_field = ''id'',
        doc_klass = ''Person'', kind = ''Person''\<rparr> ''name__startswith'' (PStr ''ab'')
     = Inr [(''name'', ''startswith'', PStr ''ab'')]
   \<and> starts_with_operator [''name''] (PStr ''ab'')
     = Inr [(''name'', ''>='', PStr ''ab''), (''name'', ''<='', PStr (''ab'' @ u_fffd))]"
  by (simp add: build_filter_def py_split_def split_from.simps lookup_operators_def
      callable_def starts_with_operator_def)

section \<open>Properties of the codec\<close>

declare to_dict.simps [simp del] unbuild.simps [simp del]
declare from_dict.simps [simp del] build.simps [simp del]

lemma from_dict_fields:
  "from_dict env meta (PDict bag) =
     (case collect (map (\<lambda>(field_name, field_klass).
              case dict_get bag (PStr field_name) of
                None \<Rightarrow> None
              | Some raw_value \<Rightarrow> Some (field_name, decode_field env field_klass raw_value))
            (metadata.fields' meta)) of
        Inl e \<Rightarrow> Inl e
      | Inr parsed_data \<Rightarrow> construct env meta parsed_data)"
  unfolding decode_field_def by (subst from_dict.simps) simp


lemma collect_all_None: "collect (map (\<lambda>x. None) xs) = Inr []"
  by (induction xs) auto

text \<open>With a non-empty \<^verbatim>\<open>select_fields\<close> every declared field is skipped.\<close>

lemma to_dict_select_nonempty:
  "select_fields \<noteq> [] \<Longrightarrow> to_dict env meta obj (Some select_fields) = Inr (PDict [])"
proof -
  assume "select_fields \<noteq> []"
  then obtain x xs where s: "select_fields = x # xs" by (cases select_fields) auto
  show ?thesis
    unfolding s
    by (subst to_dict.simps)
      (simp add: collect_all_None str_keys_def field_in_def case_prod_unfold)
qed

text \<open>
  C9. The code at \<^verbatim>\<open>to_dict(ann, select_fields=["name"])\<close>: the empty dict, where the
  claim has the one entry for \<^verbatim>\<open>name\<close>. Without \<^verbatim>\<open>select_fields\<close> every declared field
  is there, in declared order.
\<close>

theorem to_dict_select_fields:
  "to_dict example_env person_meta ann (Some [''name'']) = Inr (PDict [])
   \<and> to_dict example_env person_meta ann None =
       Inr (PDict [(PStr ''id'', PInt 7), (PStr ''name'', PStr ''Ann''),
         (PStr ''home'', PDict [(PStr ''street'', PStr ''Main''), (PStr ''zip'', PInt 123)]),
         (PStr ''tags'', PList [PStr ''a'', PStr ''b'']),
         (PStr ''scores'', PDict [(PStr ''x'', PInt 1)])])"
proof
  show "to_dict example_env person_meta ann (Some [''name'']) = Inr (PDict [])"
    by (rule to_dict_select_nonempty) simp
  show "to_dict example_env person_meta ann None =
       Inr (PDict [(PStr ''id'', PInt 7), (PStr ''name'', PStr ''Ann''),
         (PStr ''home'', PDict [(PStr ''street'', PStr ''Main''), (PStr ''zip'', PInt 123)]),
         (PStr ''tags'', PList [PStr ''a'', PStr ''b'']),
         (PStr ''scores'', PDict [(PStr ''x'', PInt 1)])])"
    by (simp add: to_dict.simps unbuild.simps example_env_def person_meta_def address_meta_def
        ann_def str_keys_def as_list_def as_dict_def key_eq_def)
qed

















section \<open>Properties of the RecordStore\<close>

declare py_range.simps [simp del] iterate.simps [simp del]

lemma concat_py_range:
  "0 < n \<Longrightarrow> concat (map (\<lambda>i. take n (drop i lst)) (py_range k (length lst) n)) = drop k lst"
proof (induction k "length lst" n rule: py_range.induct)
  case (1 i step)
  show ?case
  proof (cases "i < length lst")
    case True
    with 1 have "concat (map (\<lambda>i. take step (drop i lst)) (py_range (i + step) (length lst) step))
                   = drop (i + step) lst" by simp
    moreover have "take step (drop i lst) @ drop (i + step) lst = drop i lst"
      by (metis add.commute append_take_drop_id drop_drop)
    ultimately show ?thesis using True 1(2)
      by (subst py_range.simps) simp
  next
    case False
    then show ?thesis by (subst py_range.simps) simp
  qed
qed

lemma concat_chunks: "0 < n \<Longrightarrow> concat (chunks lst n) = lst"
  using concat_py_range [of n lst 0] by (simp add: chunks_def)

lemma lengths_py_range:
  "0 < n \<Longrightarrow> map (\<lambda>i. length (take n (drop i lst))) (py_range k (length lst) n)
     = replicate ((length lst - k) div n) n
       @ (if (length lst - k) mod n = 0 then [] else [(length lst - k) mod n])"
proof (induction k "length lst" n rule: py_range.induct)
  case (1 i step)
  let ?r = "length lst - i"
  show ?case
  proof (cases "i < length lst")
    case False
    then show ?thesis by (subst py_range.simps) simp
  next
    case True
    show ?thesis
    proof (cases "step \<le> ?r")
      case le: True
      have e: "length lst - (i + step) = ?r - step" by simp
      have d: "?r div step = Suc ((length lst - (i + step)) div step)"
        unfolding e using le 1(2) by (rule_tac le_div_geq) auto
      have m: "?r mod step = (length lst - (i + step)) mod step"
        unfolding e using le by (rule le_mod_geq)
      from 1 True have "map (\<lambda>i. length (take step (drop i lst))) (py_range (i + step) (length lst) step)
        = replicate ((length lst - (i + step)) div step) step
          @ (if (length lst - (i + step)) mod step = 0 then [] else [(length lst - (i + step)) mod step])"
        by simp
      then show ?thesis using True 1(2) le d m
        by (subst py_range.simps) (simp add: min_def)
    next
      case gt: False
      then have e: "py_range (i + step) (length lst) step = []"
        by (subst py_range.simps) simp
      from gt True 1(2) show ?thesis
        by (subst py_range.simps) (simp add: e min_def)
    qed
  qed
qed

lemma lengths_chunks:
  "0 < n \<Longrightarrow> map length (chunks lst n)
     = replicate (length lst div n) n @ (if length lst mod n = 0 then [] else [length lst mod n])"
  using lengths_py_range [of n lst 0] by (simp add: chunks_def comp_def)

lemma length_chunks: "0 < n \<Longrightarrow> length (chunks lst n) = (length lst + n - 1) div n"
proof -
  assume n: "0 < n"
  have "length (chunks lst n) = length (map length (chunks lst n))" by simp
  also have "\<dots> = length lst div n + (if length lst mod n = 0 then 0 else 1)"
    using n by (simp add: lengths_chunks del: length_map)
  also have "\<dots> = (length lst + n - 1) div n"
  proof -
    obtain q r where qr: "length lst = q * n + r" "r < n"
      by (metis n div_mult_mod_eq mod_less_divisor)
    have q0: "(q * n + r) div n = q" "(q * n + r) mod n = r" using qr n by auto
    show ?thesis
    proof (cases "r = 0")
      case True
      have a: "q * n + n - 1 = q * n + (n - 1)" using n by simp
      have b: "(q * n + (n - 1)) div n = q"
        using n by (simp only: div_mult_self3) simp
      from a b have "(q * n + n - 1) div n = q" by (simp only:)
      with True qr q0 show ?thesis by simp
    next
      case False
      have "q * n + r + n - 1 = Suc q * n + (r - 1)" using False by simp
      moreover have "(Suc q * n + (r - 1)) div n = Suc q"
        using n qr(2) by (simp only: div_mult_self3) simp
      ultimately have "(q * n + r + n - 1) div n = Suc q" by simp
      with False qr q0 show ?thesis by simp
    qed
  qed
  finally show ?thesis .
qed

lemma chunk_sizes: "0 < n \<Longrightarrow> c \<in> set (chunks lst n) \<Longrightarrow> length c \<le> n \<and> c \<noteq> []"
proof -
  assume n: "0 < n" and c: "c \<in> set (chunks lst n)"
  then have "length c \<in> set (map length (chunks lst n))" by simp
  then have "length c \<in> set (replicate (length lst div n) n @ (if length lst mod n = 0 then [] else [length lst mod n]))"
    using n by (simp only: lengths_chunks)
  then show ?thesis using n by (auto split: if_splits simp: less_imp_le)
qed

lemma take_drop_length: "take p xs @ drop (length (take p xs)) xs = xs"
  by (metis append_take_drop_id length_take min.commute take_all_iff linorder_le_cases min_def drop_all append_Nil2)

lemma iterate_drop:
  assumes "heap_get h q = Some obj"
    and "0 < (case page_size of None \<Rightarrow> default_page s | Some n \<Rightarrow> n)"
  shows "iterate s h q page_size cursor
           = drop (case cursor of None \<Rightarrow> 0 | Some c \<Rightarrow> c) (run_query s obj)"
  using assms
proof (induction s h q page_size cursor rule: iterate.induct)
  case (1 s h q page_size cursor)
  let ?rs = "run_query s obj"
  let ?start = "case cursor of None \<Rightarrow> 0 | Some c \<Rightarrow> c"
  let ?p = "case page_size of None \<Rightarrow> default_page s | Some n \<Rightarrow> n"
  let ?page = "take ?p (drop ?start ?rs)"
  have f: "fetch s obj cursor page_size =
      (?page, if ?page \<noteq> [] \<and> ?start + length ?page < length ?rs
              then Some (?start + length ?page) else None)"
    by (simp add: fetch_def Let_def)
  show ?case
  proof (cases "?page \<noteq> [] \<and> ?start + length ?page < length ?rs")
    case True
    with f have f': "fetch s obj cursor page_size = (?page, Some (?start + length ?page))" by simp
    from "1.IH" [OF "1.prems"(1) f' [symmetric] refl "1.prems"(1) "1.prems"(2)]
    have "iterate s h q page_size (Some (?start + length ?page)) = drop (?start + length ?page) ?rs"
      by simp
    moreover have "?page @ drop (?start + length ?page) ?rs = drop ?start ?rs"
      using take_drop_length [of ?p "drop ?start ?rs"] by (simp add: add.commute)
    ultimately show ?thesis
      using "1.prems"(1) f' by (subst iterate.simps) simp
  next
    case False
    with f have f': "fetch s obj cursor page_size = (?page, None)" by simp
    have "?page = drop ?start ?rs"
    proof (cases "?page = []")
      case True
      with "1.prems"(2) show ?thesis by (cases "drop ?start ?rs") auto
    next
      case ne: False
      with False have "length ?rs \<le> ?start + length ?page" by simp
      then show ?thesis by (simp add: min_def split: if_splits)
    qed
    then show ?thesis
      using "1.prems"(1) f' by (subst iterate.simps) simp
  qed
qed

lemma query_all:
  "0 < default_page s \<Longrightarrow>
   query m s None [] = Inr (filter (\<lambda>e. fst (entity_key e) = kind m) (entities s))"
  using iterate_drop [where h = "[\<lparr>q_kind = kind m, q_filters = []\<rparr>]" and q = 0
      and obj = "\<lparr>q_kind = kind m, q_filters = []\<rparr>" and page_size = None and s = s
      and cursor = None]
  by (simp add: query_def client_query_def heap_get_def run_query_def)

lemma delete_chunks_ok:
  "\<forall>c \<in> set cs. length c \<le> 500 \<Longrightarrow>
   delete_chunks s cs =
     Inr (s\<lparr>entities := filter (\<lambda>e. entity_key e \<notin> set (concat cs)) (entities s),
             writes := writes s @ map DeleteMulti cs\<rparr>)"
proof (induction cs arbitrary: s)
  case Nil
  then show ?case by simp
next
  case (Cons c cs)
  then show ?case
    by (simp add: delete_multi_def conj_commute)
qed

text \<open>
  C5. With no key, \<^verbatim>\<open>delete\<close> leaves no record of the kind and keeps the others; the
  store receives one \<^verbatim>\<open>delete_multi\<close> call for each chunk of the keys of the kind, that is
  \<open>\<lceil>n / 500\<rceil>\<close> calls of at most 500 keys each, which together are the \<open>n\<close> keys in
  order: \<open>n div 500\<close> calls of 500 keys, then one of \<open>n mod 500\<close> keys if that is not zero.
  For 1200 records these are three calls of 500, 500 and 200 keys. A query returns pages
  of at least one entity (\<open>0 < default_page s\<close>).
\<close>

theorem delete_all:
  assumes "0 < default_page s"
  shows "delete env m s PNone =
           Inr (s\<lparr>entities := filter (\<lambda>e. fst (entity_key e) \<noteq> kind m) (entities s),
                   writes := writes s @ map DeleteMulti (chunks (kind_keys m s) 500)\<rparr>)
         \<and> length (chunks (kind_keys m s) 500) = (length (kind_keys m s) + 499) div 500
         \<and> (\<forall>c \<in> set (chunks (kind_keys m s) 500). length c \<le> 500)
         \<and> concat (chunks (kind_keys m s) 500) = kind_keys m s
         \<and> map length (chunks (kind_keys m s) 500)
             = replicate (length (kind_keys m s) div 500) 500
               @ (if length (kind_keys m s) mod 500 = 0 then [] else [length (kind_keys m s) mod 500])
         \<and> (length (kind_keys m s) = 1200 \<longrightarrow>
               map length (chunks (kind_keys m s) 500) = [500, 500, 200])"
proof -
  let ?keys = "kind_keys m s"
  let ?calls = "chunks ?keys 500"
  have sizes: "\<forall>c \<in> set ?calls. length c \<le> 500"
    using chunk_sizes [of 500 _ ?keys] by simp
  have cc: "concat ?calls = ?keys" by (simp add: concat_chunks)
  have q: "query m s None [] = Inr (filter (\<lambda>e. fst (entity_key e) = kind m) (entities s))"
    using assms by (rule query_all)
  have mem: "entity_key e \<in> set ?keys \<longleftrightarrow> fst (entity_key e) = kind m"
    if "e \<in> set (entities s)" for e
    using that by (auto simp: kind_keys_def)
  have ents: "filter (\<lambda>e. entity_key e \<notin> set (concat ?calls)) (entities s)
                = filter (\<lambda>e. fst (entity_key e) \<noteq> kind m) (entities s)"
    unfolding cc by (rule filter_cong) (simp_all add: mem)
  have d: "delete env m s PNone =
           Inr (s\<lparr>entities := filter (\<lambda>e. fst (entity_key e) \<noteq> kind m) (entities s),
                   writes := writes s @ map DeleteMulti ?calls\<rparr>)"
    using delete_chunks_ok [OF sizes, of s] q ents
    by (simp add: delete_def MAX_ITEMS_PER_OPERATIONS_def kind_keys_def)
  have l: "map length ?calls = replicate (length ?keys div 500) 500
               @ (if length ?keys mod 500 = 0 then [] else [length ?keys mod 500])"
    by (simp add: lengths_chunks)
  have l1200: "map length ?calls = [500, 500, 200]" if "length ?keys = 1200"
    unfolding l that by (simp add: numeral_2_eq_2)
  have n: "length ?calls = (length ?keys + 499) div 500"
    using length_chunks [of 500 ?keys] by simp
  from d n sizes cc l l1200 show ?thesis by blast
qed

lemma big_store_keys: "length (kind_keys person_manager big_store) = 1200"
  by (simp add: kind_keys_def big_store_def person_manager_def comp_def)

theorem delete_all_witness:
  "0 < default_page big_store
   \<and> length (kind_keys person_manager big_store) = 1200
   \<and> delete example_env person_manager big_store PNone =
       Inr (big_store\<lparr>entities := [],
              writes := map DeleteMulti (chunks (kind_keys person_manager big_store) 500)\<rparr>)
   \<and> map length (chunks (kind_keys person_manager big_store) 500) = [500, 500, 200]"
proof -
  have p: "0 < default_page big_store" by (simp add: big_store_def)
  have e: "filter (\<lambda>e. fst (entity_key e) \<noteq> kind person_manager) (entities big_store) = []"
    by (simp add: big_store_def person_manager_def)
  have w: "writes big_store = []" by (simp add: big_store_def)
  from delete_all [OF p, of example_env person_manager] big_store_keys p e w
  show ?thesis by (simp add: numeral_2_eq_2)
qed

section \<open>Properties of the QueryExecutor, \<^verbatim>\<open>create\<close> and \<^verbatim>\<open>get\<close>\<close>

lemma iterate_all:
  "q < length h \<Longrightarrow> 0 < (case page_size of None \<Rightarrow> default_page s | Some n \<Rightarrow> n)
   \<Longrightarrow> iterate s h q page_size None = run_query s (h ! q)"
  using iterate_drop [where h = h and q = q and obj = "h ! q" and page_size = page_size
      and s = s and cursor = None]
  by (simp add: heap_get_def)

lemmas eval_query = query_def client_query_def build_filter_def py_split_def split_from.simps
  lookup_operators_def callable_def add_filter_def heap_get_def native_operators_def
  iterate_all run_query_def matches_def satisfies_def key_eq_def entity_id_def

text \<open>
  C1. The code at \<^verbatim>\<open>query(id__in=[1, 2, 3], status="active")\<close> on the store of five
  records. Three records match (active, with \<^verbatim>\<open>id\<close> 1, 2 or 3); the code yields the
  first only. The rounds share one query object: after the round for \<^verbatim>\<open>id = 1\<close> the
  round for \<^verbatim>\<open>id = 2\<close> runs a query that still carries \<^verbatim>\<open>id = 1\<close>.
\<close>

theorem query_in_example:
  "query person_manager people_store None
     [(''id__in'', PList [PInt 1, PInt 2, PInt 3]), (''status'', PStr ''active'')]
     = Inr [record_of 1 ''active'']
   \<and> filter (\<lambda>e. matches e (''status'', ''='', PStr ''active'')
                 \<and> (\<exists>v \<in> set [PInt 1, PInt 2, PInt 3]. matches e (''id'', ''='', v)))
         (entities people_store)
     = [record_of 1 ''active'', record_of 2 ''active'', record_of 3 ''active'']
   \<and> add_filters [\<lparr>q_kind = ''Person'', q_filters = [(''status'', ''='', PStr ''active'')]\<rparr>] 0
         [(''id'', ''='', PInt 1)]
     = Inr (0, [\<lparr>q_kind = ''Person'',
                  q_filters = [(''status'', ''='', PStr ''active''), (''id'', ''='', PInt 1)]\<rparr>])
   \<and> add_filters [\<lparr>q_kind = ''Person'',
                  q_filters = [(''status'', ''='', PStr ''active''), (''id'', ''='', PInt 1)]\<rparr>] 0
         [(''id'', ''='', PInt 2)]
     = Inr (0, [\<lparr>q_kind = ''Person'',
                  q_filters = [(''status'', ''='', PStr ''active''), (''id'', ''='', PInt 1),
                               (''id'', ''='', PInt 2)]\<rparr>])"
  by (simp add: eval_query person_manager_def people_store_def record_of_def)

lemma map_of_set_attr: "map_of (set_attr attrs n v) n = Some v"
  by (induction attrs n v rule: set_attr.induct) auto

lemma doc_pk_set_pk: "set_pk env obj v = Inr obj' \<Longrightarrow> doc_pk env obj' = Inr v"
  by (auto simp: set_pk_def doc_pk_def map_of_set_attr split: pyval.splits option.splits)

lemma to_entity_obj:
  assumes "to_entity env m s obj = Inr (entity, obj1, s1)" and "doc_pk env obj = Inr pk"
  shows "(py_truthy pk \<longrightarrow> obj1 = obj)
       \<and> (\<not> py_truthy pk \<longrightarrow> set_pk env obj (PInt (int (Suc (last_id s)))) = Inr obj1)"
proof (cases "py_truthy pk")
  case True
  with assms show ?thesis
    by (auto simp: to_entity_def split: sum.splits prod.splits pyval.splits option.splits)
next
  case False
  then have bk: "build_key env m s pk = Inr (allocate_ids s (kind m))"
    by (simp add: build_key_def)
  have id: "entity_id \<lparr>entity_key = fst (allocate_ids s (kind m)), props = []\<rparr>
              = PInt (int (Suc (last_id s)))"
    by (simp add: allocate_ids_def entity_id_def)
  obtain k s2 where a: "allocate_ids s (kind m) = (k, s2)" by (cases "allocate_ids s (kind m)")
  with id have id': "entity_id \<lparr>entity_key = k, props = []\<rparr> = PInt (int (Suc (last_id s)))"
    by simp
  from assms False bk a show ?thesis
    unfolding to_entity_def
    by (simp add: id' split: sum.splits pyval.splits option.splits)
qed

text \<open>
  C8 (as amended). After a successful \<^verbatim>\<open>create\<close> the record's primary key is a true
  value: when the key was \<^verbatim>\<open>None\<close> or another false value (\<^verbatim>\<open>0\<close>, the empty string)
  before the call, it is the id of the key the store allocated; when it was a true value,
  the record is unchanged.
\<close>

theorem create_primary_key:
  assumes c: "create env m s obj = Inr (obj', s')"
    and p: "doc_pk env obj = Inr pk"
  shows "\<exists>pk'. doc_pk env obj' = Inr pk' \<and> py_truthy pk'
           \<and> (py_truthy pk \<longrightarrow> pk' = pk \<and> obj' = obj)
           \<and> (\<not> py_truthy pk \<longrightarrow> fst (allocate_ids s (kind m)) = (kind m, pk'))"
proof -
  from c obtain entity obj1 s1 where te: "to_entity env m s obj = Inr (entity, obj1, s1)"
    by (auto simp: create_def split: sum.splits)
  note o = to_entity_obj [OF te p]
  show ?thesis
  proof (cases "py_truthy pk")
    case True
    with o have "obj1 = obj" by simp
    with c te p True have "obj' = obj"
      by (auto simp: create_def split: sum.splits)
    with p True show ?thesis by simp
  next
    case False
    let ?v = "PInt (int (Suc (last_id s)))"
    from o False have "set_pk env obj ?v = Inr obj1" by simp
    then have d1: "doc_pk env obj1 = Inr ?v" by (rule doc_pk_set_pk)
    with c te have "obj' = obj1"
      by (auto simp: create_def split: sum.splits)
    with d1 False show ?thesis by (simp add: allocate_ids_def)
  qed
qed

lemmas eval_create = create_def to_entity_def doc_pk_def build_key_def meta_of_def allocate_ids_def
  set_pk_def to_dict.simps unbuild.simps entity_id_def str_keys_def as_list_def as_dict_def
  key_eq_def example_env_def person_meta_def address_meta_def person_manager_def people_store_def

lemma create_bob:
  "create example_env person_manager people_store (bob pk) =
     (if py_truthy pk then create example_env person_manager people_store (bob pk)
      else Inr (bob (PInt 6), client_put (snd (allocate_ids people_store ''Person'')) bob_entity))"
  by (simp add: eval_create bob_def bob_entity_def)

lemma create_bob9:
  "create example_env person_manager people_store (bob (PInt 9)) =
     Inr (bob (PInt 9), client_put people_store
       \<lparr>entity_key = (''Person'', PInt 9),
          props = [(PStr ''id'', PInt 9), (PStr ''name'', PStr ''Bob''), (PStr ''home'', PNone),
            (PStr ''tags'', PList []), (PStr ''scores'', PDict [])]\<rparr>)"
  by (simp add: eval_create bob_def)


text \<open>
  C8, the claim as stated, fails for a record whose primary key is \<^verbatim>\<open>0\<close>: it has a
  primary-key value, and \<^verbatim>\<open>create\<close> replaces it by the allocated id 6.
\<close>

theorem create_primary_key_counterexample:
  "doc_pk example_env (bob (PInt 0)) = Inr (PInt 0)
   \<and> create example_env person_manager people_store (bob (PInt 0))
       = Inr (bob (PInt 6), client_put (snd (allocate_ids people_store ''Person'')) bob_entity)
   \<and> doc_pk example_env (bob (PInt 6)) = Inr (PInt 6)"
  using create_bob [of "PInt 0"]
  by (simp add: doc_pk_def bob_def example_env_def person_meta_def)


theorem create_primary_key_witness:
  "doc_pk example_env (bob PNone) = Inr PNone \<and> \<not> py_truthy PNone
   \<and> create example_env person_manager people_store (bob PNone)
       = Inr (bob (PInt 6), client_put (snd (allocate_ids people_store ''Person'')) bob_entity)
   \<and> doc_pk example_env (bob (PInt 6)) = Inr (PInt 6) \<and> py_truthy (PInt 6)
   \<and> fst (allocate_ids people_store ''Person'') = (''Person'', PInt 6)
   \<and> doc_pk example_env (bob (PInt 9)) = Inr (PInt 9) \<and> py_truthy (PInt 9)
   \<and> (\<exists>s'. create example_env person_manager people_store (bob (PInt 9))
              = Inr (bob (PInt 9), s'))"
proof -
  have p: "doc_pk example_env (bob PNone) = Inr PNone"
    by (simp add: doc_pk_def bob_def example_env_def person_meta_def)
  have c: "create example_env person_manager people_store (bob PNone)
       = Inr (bob (PInt 6), client_put (snd (allocate_ids people_store ''Person'')) bob_entity)"
    using create_bob [of PNone] by simp
  have k: "kind person_manager = ''Person''" by (simp add: person_manager_def)
  have d: "doc_pk example_env (bob (PInt 6)) = Inr (PInt 6)"
    "doc_pk example_env (bob (PInt 9)) = Inr (PInt 9)"
    by (simp_all add: doc_pk_def bob_def example_env_def person_meta_def)
  from create_primary_key [OF c p] create_primary_key [OF create_bob9 d(2)] p c k d create_bob9
  show ?thesis by auto
qed

lemmas eval_filter = filter'_def call_query_def keyword_def query_parameters_def Let_def
  from_entity_def meta_of_def from_dict_fields decode_field_def build.simps construct_def
  kwargs_dict_def

text \<open>
  \<^verbatim>\<open>get\<close> on the store of five records, with lookups that have no \<^verbatim>\<open>in\<close>: four records
  are active and \<^verbatim>\<open>get(status="active")\<close> raises \<open>MultipleObjectsFound\<close>, no record is
  gone and \<^verbatim>\<open>get(status="gone")\<close> raises \<open>DoesNotExist\<close>, both with the class and the
  keyword arguments; \<^verbatim>\<open>get(id=42)\<close> on the empty store raises \<open>DoesNotExist\<close> with the
  class and the key, \<^verbatim>\<open>get(id=2)\<close> on the five records gives the record stored under
  the key 2.
\<close>

lemma filter_active:
  "filter' example_env person_manager people_store [(''status'', PStr ''active'')]
     = Inr [Inr (person_defaults (PInt 1)), Inr (person_defaults (PInt 2)),
            Inr (person_defaults (PInt 3)), Inr (person_defaults (PInt 4))]"
  by (simp add: eval_filter eval_query person_manager_def people_store_def record_of_def
      example_env_def person_meta_def person_defaults_def)

lemma filter_gone:
  "filter' example_env person_manager people_store [(''status'', PStr ''gone'')] = Inr []"
  by (simp add: eval_filter eval_query person_manager_def people_store_def record_of_def
      example_env_def person_meta_def person_defaults_def)

lemma get_examples:
  "get example_env person_manager empty_store [(''id'', PInt 42)]
     = (Inl (DoesNotExist ''Person'' (PInt 42)), empty_store)
   \<and> get example_env person_manager people_store [(''id'', PInt 2)]
     = (Inr (person_defaults (PInt 2)), people_store)
   \<and> get example_env person_manager people_store [(''status'', PStr ''gone'')]
     = (Inl (DoesNotExist ''Person'' (PDict [(PStr ''status'', PStr ''gone'')])), people_store)
   \<and> get example_env person_manager people_store [(''status'', PStr ''active'')]
     = (Inl (MultipleObjectsFound ''Person'' (PDict [(PStr ''status'', PStr ''active'')])),
        people_store)"
proof -
  have k: "manager.pk_field person_manager = ''id''" "manager.doc_klass person_manager = ''Person''"
    by (simp_all add: person_manager_def)
  have b: "build_key example_env person_manager s (PInt i)
             = (if i = 0 then Inr (allocate_ids s ''Person'') else Inr ((''Person'', PInt i), s))" for s i
    by (simp add: build_key_def meta_of_def example_env_def person_meta_def person_manager_def)
  have g: "client_get empty_store (''Person'', PInt 42) = None"
    "client_get people_store (''Person'', PInt 2) = Some (record_of 2 ''active'')"
    by (simp_all add: client_get_def empty_store_def people_store_def record_of_def)
  have f: "from_entity example_env person_manager (record_of 2 ''active'')
             = Inr (person_defaults (PInt 2))"
    by (simp add: eval_filter key_eq_def person_manager_def record_of_def example_env_def
        person_meta_def person_defaults_def)
  have p: "props (record_of 2 ''active'') \<noteq> []" by (simp add: record_of_def)
  show ?thesis
    using k b g f p filter_active filter_gone by (simp add: get_def kwargs_dict_def)
qed

text \<open>
  C4. The code at \<^verbatim>\<open>get(id__in=[1, 2, 3], status="active")\<close> on the store of five
  records. The primary-key field \<^verbatim>\<open>id\<close> is not among the keyword arguments, so \<^verbatim>\<open>get\<close>
  reads the stream of \<^verbatim>\<open>filter\<close>. Three stored records match the lookups (active, with
  \<^verbatim>\<open>id\<close> 1, 2 or 3) and each of them decodes to a record, but the stream holds the first
  only (the rounds of \<^verbatim>\<open>query\<close> share one query object), and \<^verbatim>\<open>get\<close> returns that
  record where more than one match is \<open>MultipleObjectsFound\<close>.
\<close>

theorem get_in_example:
  "map_of [(''id__in'', PList [PInt 1, PInt 2, PInt 3]), (''status'', PStr ''active'')]
       (manager.pk_field person_manager) = None
   \<and> get example_env person_manager people_store
         [(''id__in'', PList [PInt 1, PInt 2, PInt 3]), (''status'', PStr ''active'')]
       = (Inr (person_defaults (PInt 1)), people_store)
   \<and> filter' example_env person_manager people_store
         [(''id__in'', PList [PInt 1, PInt 2, PInt 3]), (''status'', PStr ''active'')]
       = Inr [Inr (person_defaults (PInt 1))]
   \<and> filter (\<lambda>e. matches e (''status'', ''='', PStr ''active'')
                 \<and> (\<exists>v \<in> set [PInt 1, PInt 2, PInt 3]. matches e (''id'', ''='', v)))
         (entities people_store)
       = [record_of 1 ''active'', record_of 2 ''active'', record_of 3 ''active'']
   \<and> map (from_entity example_env person_manager)
         [record_of 1 ''active'', record_of 2 ''active'', record_of 3 ''active'']
       = [Inr (person_defaults (PInt 1)), Inr (person_defaults (PInt 2)),
          Inr (person_defaults (PInt 3))]"
  by (simp add: get_def eval_filter eval_query person_manager_def people_store_def record_of_def
      example_env_def person_meta_def person_defaults_def)

section \<open>Properties of the round trip\<close>


subsection \<open>\<^verbatim>\<open>fromisoformat\<close> reads what \<^verbatim>\<open>str\<close> writes\<close>












subsection \<open>Values, items and keys\<close>














subsection \<open>Fields and records\<close>















end
